theory Spec2Isabelle
  imports Complex_Main "HOL-Library.AList"
begin

section \<open>Data model\<close>

text \<open>
  The repository is a set of server actions (\<^verbatim>\<open>src/actions/index.ts\<close>) over two tables
  (\<^verbatim>\<open>db/tables.ts\<close>). A JavaScript \<^verbatim>\<open>Date\<close> is its number of milliseconds, a
  JavaScript \<^verbatim>\<open>number\<close> is a real (its finite values below \<open>2 ^ 53\<close> in magnitude,
  which the engine's client reads back as it stored them; no arithmetic is done on one,
  only the schema's integer and sign tests), a column declared \<^verbatim>\<open>optional\<close> holds an option
  (\<open>None\<close> is SQL NULL), and an optional input key holds an option (\<open>None\<close> is
  \<^verbatim>\<open>undefined\<close>).
\<close>

type_synonym Date = nat

record App_User =
  user_id :: string

record App_Locals =
  user :: "App_User option"

record ActionAPIContext =
  locals :: "App_Locals option"

text \<open>The columns of \<^verbatim>\<open>Proposals\<close>, in the order of \<^verbatim>\<open>db/tables.ts\<close>.\<close>

record Proposals_row =
  p_id :: string
  p_userId :: string
  p_title :: string
  p_clientName :: "string option"
  p_projectName :: "string option"
  p_currency :: "string option"
  p_estimatedValue :: "real option"
  p_status :: "string option"
  p_notes :: "string option"
  p_createdAt :: Date
  p_updatedAt :: Date

text \<open>
  The columns of \<^verbatim>\<open>ProposalSections\<close>. The \<^verbatim>\<open>id\<close> column is declared without a
  default; a row inserted with no value for it holds none, which is \<open>None\<close> here.
\<close>

record ProposalSections_row =
  s_id :: "string option"
  s_proposalId :: string
  s_type :: "string option"
  s_orderIndex :: real
  s_heading :: "string option"
  s_content :: string
  s_createdAt :: Date

text \<open>
  The persistence engine: the two tables in table order, and the log of the calls the
  engine has executed. The log is what makes "no read or write occurs" a statement
  about the state.

  The engine enforces what \<^verbatim>\<open>db/tables.ts\<close> declares: the primary key of
  \<^verbatim>\<open>Proposals\<close> when a row is inserted, and the reference from
  \<^verbatim>\<open>ProposalSections.proposalId\<close> to \<^verbatim>\<open>Proposals.id\<close> when a proposal is deleted. A
  statement it refuses changes nothing and throws. A section is inserted or updated
  only after its handler has read the parent proposal, so the reference holds on that
  side whenever the statement runs. That the stored proposals have distinct ids is
  written as a hypothesis where a property depends on it.
\<close>

datatype db_call = SELECT string | INSERT string | UPDATE string | DELETE string

datatype engine_error = SQLITE_CONSTRAINT_PRIMARYKEY | SQLITE_CONSTRAINT_FOREIGNKEY

record db =
  Proposals :: "Proposals_row list"
  ProposalSections :: "ProposalSections_row list"
  calls :: "db_call list"

datatype ActionErrorCode =
  BAD_REQUEST | UNAUTHORIZED | FORBIDDEN | NOT_FOUND | INTERNAL_SERVER_ERROR

datatype ZodIssueCode = invalid_type | too_small

type_synonym ZodIssue = "string \<times> ZodIssueCode"

text \<open>
  What an action throws: an \<^verbatim>\<open>ActionError\<close> with its code and message, the input
  error of a schema that rejected the input, with the issues found, or an error of the
  engine, which no handler catches.
\<close>

datatype failure =
  ActionError ActionErrorCode string | ActionInputError "ZodIssue list" | EngineError engine_error

type_synonym 'a outcome = "(failure + 'a) \<times> db"

section \<open>The persistence engine\<close>

text \<open>\<^verbatim>\<open>const [x] = rows\<close>: the first row, or \<^verbatim>\<open>undefined\<close> for no rows.\<close>

definition first_row :: "'a list \<Rightarrow> 'a option" where
  "first_row rows = (case rows of [] \<Rightarrow> None | x # _ \<Rightarrow> Some x)"

definition logged :: "db_call \<Rightarrow> db \<Rightarrow> db" where
  "logged c d = d\<lparr>calls := calls d @ [c]\<rparr>"

definition limited :: "nat option \<Rightarrow> 'a list \<Rightarrow> 'a list" where
  "limited cap rows = (case cap of None \<Rightarrow> rows | Some n \<Rightarrow> take n rows)"

definition select_Proposals ::
  "(Proposals_row \<Rightarrow> bool) \<Rightarrow> nat option \<Rightarrow> db \<Rightarrow> Proposals_row list \<times> db" where
  "select_Proposals cond cap d =
     (limited cap (filter cond (Proposals d)), logged (SELECT ''Proposals'') d)"

definition select_ProposalSections ::
  "(ProposalSections_row \<Rightarrow> bool) \<Rightarrow> nat option \<Rightarrow> db \<Rightarrow> ProposalSections_row list \<times> db" where
  "select_ProposalSections cond cap d =
     (limited cap (filter cond (ProposalSections d)), logged (SELECT ''ProposalSections'') d)"

text \<open>
  \<^verbatim>\<open>insert(...).values(v).returning()\<close>: the row is appended and returned, unless a
  stored row already has its id.
\<close>

definition insert_Proposals ::
  "Proposals_row \<Rightarrow> db \<Rightarrow> (engine_error + Proposals_row list) \<times> db" where
  "insert_Proposals v d =
     (if list_ex (\<lambda>r. p_id r = p_id v) (Proposals d)
      then (Inl SQLITE_CONSTRAINT_PRIMARYKEY, logged (INSERT ''Proposals'') d)
      else (Inr [v], logged (INSERT ''Proposals'') (d\<lparr>Proposals := Proposals d @ [v]\<rparr>)))"

text \<open>
  \<^verbatim>\<open>delete(...).where(cond).returning()\<close>: the matching rows are removed and returned,
  unless a stored section refers to one of them.
\<close>

definition referenced :: "db \<Rightarrow> Proposals_row \<Rightarrow> bool" where
  "referenced d r = list_ex (\<lambda>s. s_proposalId s = p_id r) (ProposalSections d)"

definition delete_Proposals ::
  "(Proposals_row \<Rightarrow> bool) \<Rightarrow> db \<Rightarrow> (engine_error + Proposals_row list) \<times> db" where
  "delete_Proposals cond d =
     (if list_ex (referenced d) (filter cond (Proposals d))
      then (Inl SQLITE_CONSTRAINT_FOREIGNKEY, logged (DELETE ''Proposals'') d)
      else (Inr (filter cond (Proposals d)),
            logged (DELETE ''Proposals'')
              (d\<lparr>Proposals := filter (\<lambda>r. \<not> cond r) (Proposals d)\<rparr>)))"

definition delete_ProposalSections ::
  "(ProposalSections_row \<Rightarrow> bool) \<Rightarrow> db \<Rightarrow> ProposalSections_row list \<times> db" where
  "delete_ProposalSections cond d =
     (filter cond (ProposalSections d),
      logged (DELETE ''ProposalSections'')
        (d\<lparr>ProposalSections := filter (\<lambda>r. \<not> cond r) (ProposalSections d)\<rparr>))"

text \<open>
  \<^verbatim>\<open>updateProposal\<close> builds its set object as a \<^verbatim>\<open>Record<string, unknown>\<close>: an
  association list from column names to values. The engine assigns each entry to the
  column of that name; an entry that names no column of that type cannot come out of
  the schema and leaves the row as it is.
\<close>

datatype column_value = Text string | Number real | DateValue Date

definition set_column_Proposals :: "Proposals_row \<Rightarrow> string \<times> column_value \<Rightarrow> Proposals_row" where
  "set_column_Proposals r kv =
     (case kv of
        (k, Text s) \<Rightarrow>
          if k = ''id'' then r\<lparr>p_id := s\<rparr>
          else if k = ''userId'' then r\<lparr>p_userId := s\<rparr>
          else if k = ''title'' then r\<lparr>p_title := s\<rparr>
          else if k = ''clientName'' then r\<lparr>p_clientName := Some s\<rparr>
          else if k = ''projectName'' then r\<lparr>p_projectName := Some s\<rparr>
          else if k = ''currency'' then r\<lparr>p_currency := Some s\<rparr>
          else if k = ''status'' then r\<lparr>p_status := Some s\<rparr>
          else if k = ''notes'' then r\<lparr>p_notes := Some s\<rparr>
          else r
      | (k, Number n) \<Rightarrow>
          if k = ''estimatedValue'' then r\<lparr>p_estimatedValue := Some n\<rparr> else r
      | (k, DateValue t) \<Rightarrow>
          if k = ''createdAt'' then r\<lparr>p_createdAt := t\<rparr>
          else if k = ''updatedAt'' then r\<lparr>p_updatedAt := t\<rparr>
          else r)"

text \<open>\<^verbatim>\<open>update(...).set(s).where(cond).returning()\<close>: the matching rows, updated.\<close>

definition update_Proposals ::
  "(string \<times> column_value) list \<Rightarrow> (Proposals_row \<Rightarrow> bool) \<Rightarrow> db \<Rightarrow> Proposals_row list \<times> db" where
  "update_Proposals s cond d =
     (map (\<lambda>r. foldl set_column_Proposals r s) (filter cond (Proposals d)),
      logged (UPDATE ''Proposals'')
        (d\<lparr>Proposals :=
             map (\<lambda>r. if cond r then foldl set_column_Proposals r s else r) (Proposals d)\<rparr>))"

text \<open>
  \<^verbatim>\<open>saveSection\<close> passes one object literal, \<^verbatim>\<open>baseValues\<close>, to both
  \<^verbatim>\<open>set\<close> and \<^verbatim>\<open>values\<close>. Its keys are fixed, so it is a record; \<^verbatim>\<open>type\<close> and
  \<^verbatim>\<open>heading\<close> are \<^verbatim>\<open>undefined\<close> when the input omits them. It has no \<^verbatim>\<open>id\<close> key.
\<close>

record baseValues =
  bv_proposalId :: string
  bv_type :: "string option"
  bv_orderIndex :: real
  bv_heading :: "string option"
  bv_content :: string
  bv_createdAt :: Date

text \<open>
  \<^verbatim>\<open>values\<close>: a key that is missing or \<^verbatim>\<open>undefined\<close> takes the column's default, and
  NULL where the column declares none. \<^verbatim>\<open>id\<close>, \<^verbatim>\<open>type\<close> and \<^verbatim>\<open>heading\<close>
  declare none.
\<close>

definition insert_ProposalSections ::
  "baseValues \<Rightarrow> db \<Rightarrow> ProposalSections_row list \<times> db" where
  "insert_ProposalSections v d =
     (let row = \<lparr>s_id = None, s_proposalId = bv_proposalId v, s_type = bv_type v,
                 s_orderIndex = bv_orderIndex v, s_heading = bv_heading v,
                 s_content = bv_content v, s_createdAt = bv_createdAt v\<rparr>
      in ([row], logged (INSERT ''ProposalSections'')
                   (d\<lparr>ProposalSections := ProposalSections d @ [row]\<rparr>)))"

text \<open>
  \<^verbatim>\<open>set\<close>: the query builder leaves out a key whose value is \<^verbatim>\<open>undefined\<close>, so the
  column keeps its stored value; a column is cleared only by an explicit
  \<^verbatim>\<open>null\<close>, which this code never passes.
\<close>

definition set_ProposalSections :: "baseValues \<Rightarrow> ProposalSections_row \<Rightarrow> ProposalSections_row" where
  "set_ProposalSections v r =
     r\<lparr>s_proposalId := bv_proposalId v,
       s_type := (case bv_type v of None \<Rightarrow> s_type r | Some t \<Rightarrow> Some t),
       s_orderIndex := bv_orderIndex v,
       s_heading := (case bv_heading v of None \<Rightarrow> s_heading r | Some h \<Rightarrow> Some h),
       s_content := bv_content v,
       s_createdAt := bv_createdAt v\<rparr>"

definition update_ProposalSections ::
  "baseValues \<Rightarrow> (ProposalSections_row \<Rightarrow> bool) \<Rightarrow> db \<Rightarrow> ProposalSections_row list \<times> db" where
  "update_ProposalSections v cond d =
     (map (set_ProposalSections v) (filter cond (ProposalSections d)),
      logged (UPDATE ''ProposalSections'')
        (d\<lparr>ProposalSections :=
             map (\<lambda>r. if cond r then set_ProposalSections v r else r) (ProposalSections d)\<rparr>))"

section \<open>The access guard\<close>

text \<open>
  \<^verbatim>\<open>requireUser\<close>: \<^verbatim>\<open>context.locals?.user\<close>, and the \<^verbatim>\<open>UNAUTHORIZED\<close> error when
  there is none.
\<close>

definition requireUser :: "ActionAPIContext \<Rightarrow> failure + App_User" where
  "requireUser context =
     (case locals context of
        None \<Rightarrow> Inl (ActionError UNAUTHORIZED ''You must be signed in to perform this action.'')
      | Some l \<Rightarrow>
          (case user l of
             None \<Rightarrow> Inl (ActionError UNAUTHORIZED ''You must be signed in to perform this action.'')
           | Some u \<Rightarrow> Inr u))"

section \<open>Inputs and their schemas\<close>

record createProposal_input =
  cp_id :: "string option"
  cp_title :: string
  cp_clientName :: "string option"
  cp_projectName :: "string option"
  cp_currency :: "string option"
  cp_estimatedValue :: "real option"
  cp_status :: "string option"
  cp_notes :: "string option"

record updateProposal_input =
  up_id :: string
  up_title :: "string option"
  up_clientName :: "string option"
  up_projectName :: "string option"
  up_currency :: "string option"
  up_estimatedValue :: "real option"
  up_status :: "string option"
  up_notes :: "string option"

record deleteProposal_input =
  dp_id :: string

record saveSection_input =
  ss_id :: "string option"
  ss_proposalId :: string
  ss_type :: "string option"
  ss_orderIndex :: real
  ss_heading :: "string option"
  ss_content :: string

record deleteSection_input =
  ds_id :: string
  ds_proposalId :: string

record getProposalWithSections_input =
  gp_id :: string

text \<open>
  The schemas, as the list of issues they find (empty: the input is accepted). The
  input records are typed, so what is left of a schema is its refinements:
  \<^verbatim>\<open>min(1)\<close> on a string, \<^verbatim>\<open>int()\<close> and \<^verbatim>\<open>positive()\<close> on a number.
\<close>

definition string_min :: "nat \<Rightarrow> string \<Rightarrow> string \<Rightarrow> ZodIssue list" where
  "string_min n path s = (if length s < n then [(path, too_small)] else [])"

definition number_int :: "string \<Rightarrow> real \<Rightarrow> ZodIssue list" where
  "number_int path x = (if of_int \<lfloor>x\<rfloor> = x then [] else [(path, invalid_type)])"

definition number_positive :: "string \<Rightarrow> real \<Rightarrow> ZodIssue list" where
  "number_positive path x = (if 0 < x then [] else [(path, too_small)])"

definition createProposal_schema :: "createProposal_input \<Rightarrow> ZodIssue list" where
  "createProposal_schema input = string_min 1 ''title'' (cp_title input)"

definition updateProposal_schema :: "updateProposal_input \<Rightarrow> ZodIssue list" where
  "updateProposal_schema input =
     (case up_title input of None \<Rightarrow> [] | Some t \<Rightarrow> string_min 1 ''title'' t)"

definition saveSection_schema :: "saveSection_input \<Rightarrow> ZodIssue list" where
  "saveSection_schema input =
     number_int ''orderIndex'' (ss_orderIndex input)
     @ number_positive ''orderIndex'' (ss_orderIndex input)
     @ string_min 1 ''content'' (ss_content input)"

definition no_schema :: "'i \<Rightarrow> ZodIssue list" where
  "no_schema input = []"

text \<open>
  \<^verbatim>\<open>defineAction({input, handler})\<close>: the input is parsed by the schema first, and the
  handler runs only on an accepted input.
\<close>

definition defineAction ::
  "('i \<Rightarrow> ZodIssue list) \<Rightarrow> ('i \<Rightarrow> ActionAPIContext \<Rightarrow> db \<Rightarrow> 'o outcome)
     \<Rightarrow> 'i \<Rightarrow> ActionAPIContext \<Rightarrow> db \<Rightarrow> 'o outcome" where
  "defineAction schema handler input context d =
     (case schema input of
        [] \<Rightarrow> handler input context d
      | issue # issues \<Rightarrow> (Inl (ActionInputError (issue # issues)), d))"

section \<open>The handlers\<close>

text \<open>
  Each handler takes the readings of its environment first (\<^verbatim>\<open>new Date()\<close>,
  \<^verbatim>\<open>crypto.randomUUID()\<close>), then the parsed input, the context and the engine's
  state, and returns what it returns or throws together with the engine's state.
\<close>

definition createProposal_handler ::
  "string \<Rightarrow> Date \<Rightarrow> Date \<Rightarrow> createProposal_input \<Rightarrow> ActionAPIContext \<Rightarrow> db
     \<Rightarrow> Proposals_row option outcome" where
  "createProposal_handler randomUUID now1 now2 input context d =
     (case requireUser context of
        Inl e \<Rightarrow> (Inl e, d)
      | Inr u \<Rightarrow>
          (case insert_Proposals
                  \<lparr>p_id = (case cp_id input of None \<Rightarrow> randomUUID | Some i \<Rightarrow> i),
                   p_userId = user_id u,
                   p_title = cp_title input,
                   p_clientName = cp_clientName input,
                   p_projectName = cp_projectName input,
                   p_currency = cp_currency input,
                   p_estimatedValue = cp_estimatedValue input,
                   p_status = cp_status input,
                   p_notes = cp_notes input,
                   p_createdAt = now1,
                   p_updatedAt = now2\<rparr> d of
             (Inl thrown, d1) \<Rightarrow> (Inl (EngineError thrown), d1)
           | (Inr rows, d1) \<Rightarrow> (Inr (first_row rows), d1)))"

text \<open>
  \<^verbatim>\<open>const { id, ...rest } = input\<close> and \<^verbatim>\<open>Object.entries(rest)\<close>: the seven mutable
  keys in schema order, each with its value or \<^verbatim>\<open>undefined\<close>.
\<close>

definition rest_entries :: "updateProposal_input \<Rightarrow> (string \<times> column_value option) list" where
  "rest_entries input =
     [(''title'', map_option Text (up_title input)),
      (''clientName'', map_option Text (up_clientName input)),
      (''projectName'', map_option Text (up_projectName input)),
      (''currency'', map_option Text (up_currency input)),
      (''estimatedValue'', map_option Number (up_estimatedValue input)),
      (''status'', map_option Text (up_status input)),
      (''notes'', map_option Text (up_notes input))]"

text \<open>The loop that copies the defined entries into \<^verbatim>\<open>updateData\<close>.\<close>

fun copy_defined ::
  "(string \<times> column_value option) list \<Rightarrow> (string \<times> column_value) list
     \<Rightarrow> (string \<times> column_value) list" where
  "copy_defined [] updateData = updateData"
| "copy_defined ((key, None) # entries) updateData = copy_defined entries updateData"
| "copy_defined ((key, Some v) # entries) updateData =
     copy_defined entries (AList.update key v updateData)"

definition updateProposal_handler ::
  "Date \<Rightarrow> updateProposal_input \<Rightarrow> ActionAPIContext \<Rightarrow> db \<Rightarrow> Proposals_row option outcome" where
  "updateProposal_handler now input context d =
     (case requireUser context of
        Inl e \<Rightarrow> (Inl e, d)
      | Inr u \<Rightarrow>
          (case select_Proposals
                  (\<lambda>r. p_id r = up_id input \<and> p_userId r = user_id u) (Some 1) d of
             (rows, d1) \<Rightarrow>
               (case first_row rows of
                  None \<Rightarrow> (Inl (ActionError NOT_FOUND ''Proposal not found.''), d1)
                | Some existing \<Rightarrow>
                    (let updateData = copy_defined (rest_entries input) []
                     in if length (map fst updateData) = 0 then (Inr (Some existing), d1)
                        else
                          (case update_Proposals
                                  (AList.update ''updatedAt'' (DateValue now) updateData)
                                  (\<lambda>r. p_id r = up_id input \<and> p_userId r = user_id u) d1 of
                             (rows2, d2) \<Rightarrow> (Inr (first_row rows2), d2))))))"

definition listProposals_handler ::
  "unit \<Rightarrow> ActionAPIContext \<Rightarrow> db \<Rightarrow> Proposals_row list outcome" where
  "listProposals_handler input context d =
     (case requireUser context of
        Inl e \<Rightarrow> (Inl e, d)
      | Inr u \<Rightarrow>
          (case select_Proposals (\<lambda>r. p_userId r = user_id u) None d of
             (proposals, d1) \<Rightarrow> (Inr proposals, d1)))"

definition deleteProposal_handler ::
  "deleteProposal_input \<Rightarrow> ActionAPIContext \<Rightarrow> db \<Rightarrow> Proposals_row outcome" where
  "deleteProposal_handler input context d =
     (case requireUser context of
        Inl e \<Rightarrow> (Inl e, d)
      | Inr u \<Rightarrow>
          (case delete_Proposals (\<lambda>r. p_id r = dp_id input \<and> p_userId r = user_id u) d of
             (Inl thrown, d1) \<Rightarrow> (Inl (EngineError thrown), d1)
           | (Inr rows, d1) \<Rightarrow>
               (case first_row rows of
                  None \<Rightarrow> (Inl (ActionError NOT_FOUND ''Proposal not found.''), d1)
                | Some deleted \<Rightarrow> (Inr deleted, d1))))"

text \<open>
  \<^verbatim>\<open>if (input.id)\<close> tests truthiness: an id that is \<^verbatim>\<open>undefined\<close> or the empty
  string takes the insert path.
\<close>

definition truthy :: "string option \<Rightarrow> bool" where
  "truthy v = (case v of None \<Rightarrow> False | Some s \<Rightarrow> s \<noteq> [])"

definition saveSection_handler ::
  "Date \<Rightarrow> saveSection_input \<Rightarrow> ActionAPIContext \<Rightarrow> db \<Rightarrow> ProposalSections_row option outcome" where
  "saveSection_handler now input context d =
     (case requireUser context of
        Inl e \<Rightarrow> (Inl e, d)
      | Inr u \<Rightarrow>
          (case select_Proposals
                  (\<lambda>r. p_id r = ss_proposalId input \<and> p_userId r = user_id u) (Some 1) d of
             (rows, d1) \<Rightarrow>
               (case first_row rows of
                  None \<Rightarrow> (Inl (ActionError NOT_FOUND ''Proposal not found.''), d1)
                | Some proposal \<Rightarrow>
                    (let values = \<lparr>bv_proposalId = ss_proposalId input,
                                   bv_type = ss_type input,
                                   bv_orderIndex = ss_orderIndex input,
                                   bv_heading = ss_heading input,
                                   bv_content = ss_content input,
                                   bv_createdAt = now\<rparr>
                     in if truthy (ss_id input) then
                          (case select_ProposalSections
                                  (\<lambda>s. s_id s = ss_id input) (Some 1) d1 of
                             (rows2, d2) \<Rightarrow>
                               (case first_row rows2 of
                                  None \<Rightarrow> (Inl (ActionError NOT_FOUND ''Section not found.''), d2)
                                | Some existing \<Rightarrow>
                                    if s_proposalId existing \<noteq> ss_proposalId input
                                    then (Inl (ActionError NOT_FOUND ''Section not found.''), d2)
                                    else
                                      (case update_ProposalSections values
                                              (\<lambda>s. s_id s = ss_id input) d2 of
                                         (rows3, d3) \<Rightarrow> (Inr (first_row rows3), d3))))
                        else
                          (case insert_ProposalSections values d1 of
                             (rows2, d2) \<Rightarrow> (Inr (first_row rows2), d2))))))"

definition deleteSection_handler ::
  "deleteSection_input \<Rightarrow> ActionAPIContext \<Rightarrow> db \<Rightarrow> ProposalSections_row outcome" where
  "deleteSection_handler input context d =
     (case requireUser context of
        Inl e \<Rightarrow> (Inl e, d)
      | Inr u \<Rightarrow>
          (case select_Proposals
                  (\<lambda>r. p_id r = ds_proposalId input \<and> p_userId r = user_id u) (Some 1) d of
             (rows, d1) \<Rightarrow>
               (case first_row rows of
                  None \<Rightarrow> (Inl (ActionError NOT_FOUND ''Proposal not found.''), d1)
                | Some proposal \<Rightarrow>
                    (case delete_ProposalSections
                            (\<lambda>s. s_id s = Some (ds_id input)
                                  \<and> s_proposalId s = ds_proposalId input) d1 of
                       (rows2, d2) \<Rightarrow>
                         (case first_row rows2 of
                            None \<Rightarrow> (Inl (ActionError NOT_FOUND ''Section not found.''), d2)
                          | Some deleted \<Rightarrow> (Inr deleted, d2))))))"

definition getProposalWithSections_handler ::
  "getProposalWithSections_input \<Rightarrow> ActionAPIContext \<Rightarrow> db
     \<Rightarrow> (Proposals_row \<times> ProposalSections_row list) outcome" where
  "getProposalWithSections_handler input context d =
     (case requireUser context of
        Inl e \<Rightarrow> (Inl e, d)
      | Inr u \<Rightarrow>
          (case select_Proposals
                  (\<lambda>r. p_id r = gp_id input \<and> p_userId r = user_id u) (Some 1) d of
             (rows, d1) \<Rightarrow>
               (case first_row rows of
                  None \<Rightarrow> (Inl (ActionError NOT_FOUND ''Proposal not found.''), d1)
                | Some proposal \<Rightarrow>
                    (case select_ProposalSections
                            (\<lambda>s. s_proposalId s = gp_id input) None d1 of
                       (sections, d2) \<Rightarrow> (Inr (proposal, sections), d2)))))"

section \<open>The exposed actions\<close>

definition createProposal ::
  "string \<Rightarrow> Date \<Rightarrow> Date \<Rightarrow> createProposal_input \<Rightarrow> ActionAPIContext \<Rightarrow> db
     \<Rightarrow> Proposals_row option outcome" where
  "createProposal randomUUID now1 now2 =
     defineAction createProposal_schema (createProposal_handler randomUUID now1 now2)"

definition updateProposal ::
  "Date \<Rightarrow> updateProposal_input \<Rightarrow> ActionAPIContext \<Rightarrow> db \<Rightarrow> Proposals_row option outcome" where
  "updateProposal now = defineAction updateProposal_schema (updateProposal_handler now)"

definition listProposals :: "unit \<Rightarrow> ActionAPIContext \<Rightarrow> db \<Rightarrow> Proposals_row list outcome" where
  "listProposals = defineAction no_schema listProposals_handler"

definition deleteProposal ::
  "deleteProposal_input \<Rightarrow> ActionAPIContext \<Rightarrow> db \<Rightarrow> Proposals_row outcome" where
  "deleteProposal = defineAction no_schema deleteProposal_handler"

definition saveSection ::
  "Date \<Rightarrow> saveSection_input \<Rightarrow> ActionAPIContext \<Rightarrow> db \<Rightarrow> ProposalSections_row option outcome" where
  "saveSection now = defineAction saveSection_schema (saveSection_handler now)"

definition deleteSection ::
  "deleteSection_input \<Rightarrow> ActionAPIContext \<Rightarrow> db \<Rightarrow> ProposalSections_row outcome" where
  "deleteSection = defineAction no_schema deleteSection_handler"

definition getProposalWithSections ::
  "getProposalWithSections_input \<Rightarrow> ActionAPIContext \<Rightarrow> db
     \<Rightarrow> (Proposals_row \<times> ProposalSections_row list) outcome" where
  "getProposalWithSections = defineAction no_schema getProposalWithSections_handler"

section \<open>Vocabulary of the properties\<close>

text \<open>
  The record the specification describes for an update: the stored record with each
  supplied field replaced by the supplied value, every omitted field as stored, and
  \<^verbatim>\<open>updatedAt\<close> set to the reading of the clock. It is written from the specification's
  words, to be compared with what the handler returns and stores.
\<close>

definition replace_supplied :: "Proposals_row \<Rightarrow> updateProposal_input \<Rightarrow> Date \<Rightarrow> Proposals_row" where
  "replace_supplied r input now =
     r\<lparr>p_title := (case up_title input of None \<Rightarrow> p_title r | Some v \<Rightarrow> v),
       p_clientName := (case up_clientName input of None \<Rightarrow> p_clientName r | Some v \<Rightarrow> Some v),
       p_projectName := (case up_projectName input of None \<Rightarrow> p_projectName r | Some v \<Rightarrow> Some v),
       p_currency := (case up_currency input of None \<Rightarrow> p_currency r | Some v \<Rightarrow> Some v),
       p_estimatedValue :=
         (case up_estimatedValue input of None \<Rightarrow> p_estimatedValue r | Some v \<Rightarrow> Some v),
       p_status := (case up_status input of None \<Rightarrow> p_status r | Some v \<Rightarrow> Some v),
       p_notes := (case up_notes input of None \<Rightarrow> p_notes r | Some v \<Rightarrow> Some v),
       p_updatedAt := now\<rparr>"

text \<open>A request context that carries no resolved identity.\<close>

definition signed_out :: "ActionAPIContext \<Rightarrow> bool" where
  "signed_out context = (case locals context of None \<Rightarrow> True | Some l \<Rightarrow> user l = None)"

text \<open>The invariant on titles: every stored proposal has a non-empty title.\<close>

definition titles_nonempty :: "db \<Rightarrow> bool" where
  "titles_nonempty d = list_all (\<lambda>r. p_title r \<noteq> []) (Proposals d)"

subsection \<open>Sample data\<close>

definition signed_in :: "App_User \<Rightarrow> ActionAPIContext" where
  "signed_in u = \<lparr>locals = Some \<lparr>user = Some u\<rparr>\<rparr>"

definition anonymous :: ActionAPIContext where
  "anonymous = \<lparr>locals = Some \<lparr>user = None\<rparr>\<rparr>"

definition alice :: App_User where
  "alice = \<lparr>user_id = ''alice''\<rparr>"

definition bob :: App_User where
  "bob = \<lparr>user_id = ''bob''\<rparr>"

definition proposal_p1 :: Proposals_row where
  "proposal_p1 =
     \<lparr>p_id = ''p1'', p_userId = ''alice'', p_title = ''Website proposal'',
      p_clientName = Some ''ACME'', p_projectName = None, p_currency = None,
      p_estimatedValue = None, p_status = Some ''draft'', p_notes = None,
      p_createdAt = 10, p_updatedAt = 20\<rparr>"

definition proposal_p2 :: Proposals_row where
  "proposal_p2 =
     \<lparr>p_id = ''p2'', p_userId = ''bob'', p_title = ''Audit proposal'',
      p_clientName = None, p_projectName = None, p_currency = Some ''USD'',
      p_estimatedValue = Some 1200, p_status = None, p_notes = None,
      p_createdAt = 11, p_updatedAt = 21\<rparr>"

definition section_s1 :: ProposalSections_row where
  "section_s1 =
     \<lparr>s_id = Some ''s1'', s_proposalId = ''p1'', s_type = Some ''intro'', s_orderIndex = 1,
      s_heading = Some ''Introduction'', s_content = ''Intro text'', s_createdAt = 30\<rparr>"

definition sample_db :: db where
  "sample_db =
     \<lparr>Proposals = [proposal_p1, proposal_p2], ProposalSections = [section_s1], calls = []\<rparr>"

section \<open>Properties\<close>


lemmas sample_defs = signed_in_def anonymous_def alice_def bob_def proposal_p1_def
  proposal_p2_def section_s1_def sample_db_def requireUser_def

subsection \<open>Rows under a primary key\<close>

lemma filter_key_unique:
  "distinct (map f xs) \<Longrightarrow> x \<in> set xs \<Longrightarrow> Q x \<Longrightarrow> filter (\<lambda>r. f r = f x \<and> Q r) xs = [x]"
  by (induction xs) (auto simp: image_iff filter_empty_conv)

lemma filter_key_others:
  "distinct (map f xs) \<Longrightarrow> x \<in> set xs \<Longrightarrow> Q x \<Longrightarrow>
   filter (\<lambda>r. \<not> (f r = f x \<and> Q r)) xs = filter (\<lambda>r. r \<noteq> x) xs"
  by (rule filter_cong) (auto simp: distinct_map dest: inj_onD)

lemma map_key_unique:
  "distinct (map f xs) \<Longrightarrow> x \<in> set xs \<Longrightarrow> Q x \<Longrightarrow>
   map (\<lambda>r. if f r = f x \<and> Q r then g r else r) xs = map (\<lambda>r. if r = x then g x else r) xs"
  by (rule map_cong) (auto simp: distinct_map dest: inj_onD)

lemma owned_rows:
  assumes "distinct (map p_id rows)" "x \<in> set rows" "p_id x = i" "p_userId x = uid"
  shows "filter (\<lambda>r. p_id r = i \<and> p_userId r = uid) rows = [x]"
  using filter_key_unique [of p_id rows x "\<lambda>r. p_userId r = uid"] assms by auto

lemma not_owned_rows:
  assumes "distinct (map p_id rows)" "p \<in> set rows" "p_userId p \<noteq> uid"
  shows "filter (\<lambda>r. p_id r = p_id p \<and> p_userId r = uid) rows = []"
  using assms by (auto simp: filter_empty_conv distinct_map dest: inj_onD)

lemma map_only:
  assumes "x \<in> set xs" "P x" "\<forall>y\<in>set xs. P y \<longrightarrow> y = x"
  shows "map (\<lambda>s. if P s then f s else s) xs = map (\<lambda>s. if s = x then f x else s) xs"
proof (rule map_cong [OF refl])
  fix s assume s: "s \<in> set xs"
  show "(if P s then f s else s) = (if s = x then f x else s)"
  proof (cases "P s")
    case True
    then have "s = x" using assms(3) s by blast
    then show ?thesis using True by simp
  next
    case False
    then have "s \<noteq> x" using assms(2) by blast
    then show ?thesis using False by simp
  qed
qed

subsection \<open>The first row of a result\<close>

lemma first_row_Nil: "first_row [] = None"
  by (simp add: first_row_def)

lemma first_row_Cons: "first_row (x # xs) = Some x"
  by (simp add: first_row_def)

lemma first_row_Some: "first_row xs = Some x \<Longrightarrow> x \<in> set xs"
  by (auto simp: first_row_def split: list.splits)

lemma first_row_limited: "0 < n \<Longrightarrow> first_row (limited (Some n) xs) = first_row xs"
  by (cases xs; cases n) (simp_all add: first_row_def limited_def)

lemma first_row_None: "(first_row xs = None) = (xs = [])"
  by (cases xs) (simp_all add: first_row_def)

lemma first_row_filter_Some: "first_row (filter P xs) = Some y \<Longrightarrow> y \<in> set xs \<and> P y"
proof -
  assume "first_row (filter P xs) = Some y"
  then have "y \<in> set (filter P xs)" by (rule first_row_Some)
  then show ?thesis by simp
qed

lemma first_row_filter_mem:
  assumes "x \<in> set xs" "P x"
  shows "\<exists>y. first_row (filter P xs) = Some y \<and> y \<in> set xs \<and> P y"
proof (cases "first_row (filter P xs)")
  case None
  then have "filter P xs = []" by (simp add: first_row_None)
  then show ?thesis using assms by (simp add: filter_empty_conv)
next
  case (Some y)
  then show ?thesis using first_row_filter_Some [of P xs y] by simp
qed

lemma first_row_filter_only:
  assumes "x \<in> set xs" "P x" "\<forall>y\<in>set xs. P y \<longrightarrow> y = x"
  shows "first_row (filter P xs) = Some x"
proof -
  obtain y where "first_row (filter P xs) = Some y" "y \<in> set xs" "P y"
    using first_row_filter_mem [of x xs P] assms(1,2) by blast
  then show ?thesis using assms(3) by auto
qed

lemma first_row_map: "first_row (map f xs) = map_option f (first_row xs)"
  by (cases xs) (simp_all add: first_row_def)

subsection \<open>The access guard runs first\<close>

lemma requireUser_signed_out:
  "signed_out context \<Longrightarrow>
   requireUser context = Inl (ActionError UNAUTHORIZED ''You must be signed in to perform this action.'')"
  by (cases "locals context") (simp_all add: signed_out_def requireUser_def)

lemma defineAction_state:
  "snd (handler input context d) = d \<Longrightarrow> snd (defineAction schema handler input context d) = d"
  by (simp add: defineAction_def split: list.splits)

lemma handlers_require_user:
  assumes "signed_out context"
  shows "createProposal_handler randomUUID now1 now2 c_input context d = (Inl (ActionError UNAUTHORIZED ''You must be signed in to perform this action.''), d)"
    and "updateProposal_handler now u_input context d = (Inl (ActionError UNAUTHORIZED ''You must be signed in to perform this action.''), d)"
    and "listProposals_handler () context d = (Inl (ActionError UNAUTHORIZED ''You must be signed in to perform this action.''), d)"
    and "deleteProposal_handler d_input context d = (Inl (ActionError UNAUTHORIZED ''You must be signed in to perform this action.''), d)"
    and "saveSection_handler now s_input context d = (Inl (ActionError UNAUTHORIZED ''You must be signed in to perform this action.''), d)"
    and "deleteSection_handler ds_input context d = (Inl (ActionError UNAUTHORIZED ''You must be signed in to perform this action.''), d)"
    and "getProposalWithSections_handler g_input context d = (Inl (ActionError UNAUTHORIZED ''You must be signed in to perform this action.''), d)"
  by (simp_all add: requireUser_signed_out [OF assms] createProposal_handler_def
      updateProposal_handler_def listProposals_handler_def deleteProposal_handler_def
      saveSection_handler_def deleteSection_handler_def getProposalWithSections_handler_def)

lemma saveSection_schema_accepts:
  "saveSection_schema input = [] \<longleftrightarrow>
     of_int \<lfloor>ss_orderIndex input\<rfloor> = ss_orderIndex input \<and> 0 < ss_orderIndex input
     \<and> ss_content input \<noteq> []"
  by (auto simp: saveSection_schema_def number_int_def number_positive_def string_min_def)

text \<open>
  Claim C5, as amended. When the request context carries no resolved identity, each of
  the seven exposed actions fails and hands the engine back exactly as it received it:
  both tables and the log of executed calls are unchanged, so no read or write was
  executed. The failure is \<^verbatim>\<open>ActionError UNAUTHORIZED ''You must be signed in to perform this action.''ORIZED\<close> whenever the action's schema accepts the
  input, which it always does for the four actions whose schema has no refinement; an
  input the schema rejects fails with the input error, because the schema runs before
  the handler and its identity check.
\<close>
theorem signed_out_fails_before_data_access:
  assumes "signed_out context"
  shows "createProposal randomUUID now1 now2 c_input context d
           = (Inl (if cp_title c_input = []
                   then ActionInputError [(''title'', too_small)]
                   else ActionError UNAUTHORIZED ''You must be signed in to perform this action.''), d)
       \<and> updateProposal now u_input context d
           = (Inl (if up_title u_input = Some []
                   then ActionInputError [(''title'', too_small)]
                   else ActionError UNAUTHORIZED ''You must be signed in to perform this action.''), d)
       \<and> listProposals () context d = (Inl (ActionError UNAUTHORIZED ''You must be signed in to perform this action.''), d)
       \<and> deleteProposal d_input context d = (Inl (ActionError UNAUTHORIZED ''You must be signed in to perform this action.''), d)
       \<and> saveSection now s_input context d
           = (Inl (if of_int \<lfloor>ss_orderIndex s_input\<rfloor> = ss_orderIndex s_input
                      \<and> 0 < ss_orderIndex s_input \<and> ss_content s_input \<noteq> []
                   then ActionError UNAUTHORIZED ''You must be signed in to perform this action.''
                   else ActionInputError (saveSection_schema s_input)), d)
       \<and> deleteSection ds_input context d = (Inl (ActionError UNAUTHORIZED ''You must be signed in to perform this action.''), d)
       \<and> getProposalWithSections g_input context d = (Inl (ActionError UNAUTHORIZED ''You must be signed in to perform this action.''), d)"
proof -
  note h = handlers_require_user [OF assms]
  have c: "createProposal randomUUID now1 now2 c_input context d
           = (Inl (if cp_title c_input = []
                   then ActionInputError [(''title'', too_small)]
                   else ActionError UNAUTHORIZED ''You must be signed in to perform this action.''), d)"
    by (simp add: createProposal_def defineAction_def createProposal_schema_def string_min_def h)
  have u: "updateProposal now u_input context d
           = (Inl (if up_title u_input = Some []
                   then ActionInputError [(''title'', too_small)]
                   else ActionError UNAUTHORIZED ''You must be signed in to perform this action.''), d)"
    by (cases "up_title u_input")
       (simp_all add: updateProposal_def defineAction_def updateProposal_schema_def
         string_min_def h)
  have s: "saveSection now s_input context d
           = (Inl (if of_int \<lfloor>ss_orderIndex s_input\<rfloor> = ss_orderIndex s_input
                      \<and> 0 < ss_orderIndex s_input \<and> ss_content s_input \<noteq> []
                   then ActionError UNAUTHORIZED ''You must be signed in to perform this action.''
                   else ActionInputError (saveSection_schema s_input)), d)"
  proof (cases "saveSection_schema s_input")
    case Nil
    then show ?thesis
      using saveSection_schema_accepts [of s_input]
      by (simp add: saveSection_def defineAction_def h)
  next
    case (Cons a as)
    then show ?thesis
      using saveSection_schema_accepts [of s_input]
      by (simp add: saveSection_def defineAction_def)
  qed
  have r: "listProposals () context d = (Inl (ActionError UNAUTHORIZED ''You must be signed in to perform this action.''), d)"
    "deleteProposal d_input context d = (Inl (ActionError UNAUTHORIZED ''You must be signed in to perform this action.''), d)"
    "deleteSection ds_input context d = (Inl (ActionError UNAUTHORIZED ''You must be signed in to perform this action.''), d)"
    "getProposalWithSections g_input context d = (Inl (ActionError UNAUTHORIZED ''You must be signed in to perform this action.''), d)"
    by (simp_all add: listProposals_def deleteProposal_def deleteSection_def
        getProposalWithSections_def defineAction_def no_schema_def h)
  show ?thesis using c u s r by simp
qed
theorem signed_out_fails_before_data_access_witness:
  "signed_out anonymous
   \<and> createProposal ''generated'' 1000 1000
        \<lparr>cp_id = None, cp_title = ''Website proposal'', cp_clientName = None,
         cp_projectName = None, cp_currency = None, cp_estimatedValue = None,
         cp_status = None, cp_notes = None\<rparr> anonymous sample_db
       = (Inl (ActionError UNAUTHORIZED ''You must be signed in to perform this action.''), sample_db)
   \<and> listProposals () anonymous sample_db = (Inl (ActionError UNAUTHORIZED ''You must be signed in to perform this action.''), sample_db)
   \<and> deleteProposal \<lparr>dp_id = ''p1''\<rparr> anonymous sample_db = (Inl (ActionError UNAUTHORIZED ''You must be signed in to perform this action.''), sample_db)
   \<and> saveSection 1000
        \<lparr>ss_id = None, ss_proposalId = ''p1'', ss_type = None, ss_orderIndex = 1,
         ss_heading = None, ss_content = ''Intro text''\<rparr> anonymous sample_db
       = (Inl (ActionError UNAUTHORIZED ''You must be signed in to perform this action.''), sample_db)
   \<and> deleteSection \<lparr>ds_id = ''s1'', ds_proposalId = ''p1''\<rparr> anonymous sample_db
       = (Inl (ActionError UNAUTHORIZED ''You must be signed in to perform this action.''), sample_db)"
proof -
  have h: "signed_out anonymous"
    by (simp add: signed_out_def anonymous_def)
  show ?thesis
    using h signed_out_fails_before_data_access [OF h, of "''generated''" 1000 1000
        "\<lparr>cp_id = None, cp_title = ''Website proposal'', cp_clientName = None,
         cp_projectName = None, cp_currency = None, cp_estimatedValue = None,
         cp_status = None, cp_notes = None\<rparr>" sample_db 1000 _ "\<lparr>dp_id = ''p1''\<rparr>"
        "\<lparr>ss_id = None, ss_proposalId = ''p1'', ss_type = None, ss_orderIndex = 1,
         ss_heading = None, ss_content = ''Intro text''\<rparr>"
        "\<lparr>ds_id = ''s1'', ds_proposalId = ''p1''\<rparr>"]
    by simp
qed

text \<open>
  The claim as stated fails for a signed-out call whose input the schema rejects: the
  failure is the input error, not \<^verbatim>\<open>ActionError UNAUTHORIZED ''You must be signed in to perform this action.''ORIZED\<close>.
\<close>

theorem signed_out_empty_title_is_input_error:
  "signed_out anonymous
   \<and> createProposal ''generated'' 1000 1000
        \<lparr>cp_id = None, cp_title = [], cp_clientName = None,
         cp_projectName = None, cp_currency = None, cp_estimatedValue = None,
         cp_status = None, cp_notes = None\<rparr> anonymous sample_db
       = (Inl (ActionInputError [(''title'', too_small)]), sample_db)"
  by (simp add: signed_out_def anonymous_def createProposal_def defineAction_def
      createProposal_schema_def string_min_def)
subsection \<open>The schemas run before the handlers\<close>

lemma defineAction_rejects:
  "schema input \<noteq> [] \<Longrightarrow>
   defineAction schema handler input context d = (Inl (ActionInputError (schema input)), d)"
  by (cases "schema input") (simp_all add: defineAction_def)

lemma defineAction_accepts:
  "schema input = [] \<Longrightarrow> defineAction schema handler input context d = handler input context d"
  by (simp add: defineAction_def)

text \<open>
  Claim C9. A \<^verbatim>\<open>saveSection\<close> call whose \<^verbatim>\<open>orderIndex\<close> is zero, negative or not an
  integer, or whose \<^verbatim>\<open>content\<close> is empty, fails with the input error that carries the
  schema's issues, and the engine is handed back exactly as received: no call was
  executed. A call with \<^verbatim>\<open>orderIndex\<close> 1 and a non-empty \<^verbatim>\<open>content\<close> is accepted by
  the schema and is what its handler makes of it.
\<close>

theorem saveSection_validation:
  "(ss_orderIndex input \<le> 0 \<or> of_int \<lfloor>ss_orderIndex input\<rfloor> \<noteq> ss_orderIndex input
      \<or> ss_content input = [] \<longrightarrow>
      saveSection_schema input \<noteq> []
      \<and> saveSection now input context d = (Inl (ActionInputError (saveSection_schema input)), d))
   \<and> (ss_orderIndex input = 1 \<and> ss_content input \<noteq> [] \<longrightarrow>
      saveSection_schema input = []
      \<and> saveSection now input context d = saveSection_handler now input context d)"
proof (intro conjI impI)
  assume bad: "ss_orderIndex input \<le> 0 \<or> of_int \<lfloor>ss_orderIndex input\<rfloor> \<noteq> ss_orderIndex input
      \<or> ss_content input = []"
  then show rej: "saveSection_schema input \<noteq> []"
    by (auto simp: saveSection_schema_accepts)
  show "saveSection now input context d = (Inl (ActionInputError (saveSection_schema input)), d)"
    unfolding saveSection_def using rej by (rule defineAction_rejects [of saveSection_schema input])
next
  assume good: "ss_orderIndex input = 1 \<and> ss_content input \<noteq> []"
  then show acc: "saveSection_schema input = []"
    by (simp add: saveSection_schema_accepts)
  show "saveSection now input context d = saveSection_handler now input context d"
    unfolding saveSection_def using acc by (rule defineAction_accepts [of saveSection_schema input])
qed

theorem saveSection_validation_witness:
  "saveSection 1000
      \<lparr>ss_id = None, ss_proposalId = ''p1'', ss_type = None, ss_orderIndex = 0,
       ss_heading = None, ss_content = ''Intro text''\<rparr> (signed_in alice) sample_db
     = (Inl (ActionInputError [(''orderIndex'', too_small)]), sample_db)
   \<and> saveSection 1000
      \<lparr>ss_id = None, ss_proposalId = ''p1'', ss_type = None, ss_orderIndex = 3 / 2,
       ss_heading = None, ss_content = ''Intro text''\<rparr> (signed_in alice) sample_db
     = (Inl (ActionInputError [(''orderIndex'', invalid_type)]), sample_db)
   \<and> saveSection 1000
      \<lparr>ss_id = None, ss_proposalId = ''p1'', ss_type = None, ss_orderIndex = 1,
       ss_heading = None, ss_content = []\<rparr> (signed_in alice) sample_db
     = (Inl (ActionInputError [(''content'', too_small)]), sample_db)
   \<and> saveSection 1000
      \<lparr>ss_id = None, ss_proposalId = ''p1'', ss_type = None, ss_orderIndex = 1,
       ss_heading = None, ss_content = ''Intro text''\<rparr> (signed_in alice) sample_db
     = saveSection_handler 1000
      \<lparr>ss_id = None, ss_proposalId = ''p1'', ss_type = None, ss_orderIndex = 1,
       ss_heading = None, ss_content = ''Intro text''\<rparr> (signed_in alice) sample_db"
  using
    saveSection_validation [of "\<lparr>ss_id = None, ss_proposalId = ''p1'', ss_type = None, ss_orderIndex = 0,
       ss_heading = None, ss_content = ''Intro text''\<rparr>" 1000 "signed_in alice" sample_db]
    saveSection_validation [of "\<lparr>ss_id = None, ss_proposalId = ''p1'', ss_type = None, ss_orderIndex = 3 / 2,
       ss_heading = None, ss_content = ''Intro text''\<rparr>" 1000 "signed_in alice" sample_db]
    saveSection_validation [of "\<lparr>ss_id = None, ss_proposalId = ''p1'', ss_type = None, ss_orderIndex = 1,
       ss_heading = None, ss_content = []\<rparr>" 1000 "signed_in alice" sample_db]
    saveSection_validation [of "\<lparr>ss_id = None, ss_proposalId = ''p1'', ss_type = None, ss_orderIndex = 1,
       ss_heading = None, ss_content = ''Intro text''\<rparr>" 1000 "signed_in alice" sample_db]
  by (simp add: saveSection_schema_def number_int_def number_positive_def string_min_def)

subsection \<open>The change set of an update\<close>

lemma set_columns_of_rest:
  "foldl set_column_Proposals r
     (AList.update ''updatedAt'' (DateValue now) (copy_defined (rest_entries input) []))
   = replace_supplied r input now"
  unfolding replace_supplied_def
  by (cases "up_title input"; cases "up_clientName input"; cases "up_projectName input";
      cases "up_currency input"; cases "up_estimatedValue input"; cases "up_status input";
      cases "up_notes input")
     (simp_all add: rest_entries_def set_column_Proposals_def)

lemma updateData_empty_iff:
  "copy_defined (rest_entries input) [] = [] \<longleftrightarrow>
     up_title input = None \<and> up_clientName input = None \<and> up_projectName input = None \<and>
     up_currency input = None \<and> up_estimatedValue input = None \<and> up_status input = None \<and>
     up_notes input = None"
  by (cases "up_title input"; cases "up_clientName input"; cases "up_projectName input";
      cases "up_currency input"; cases "up_estimatedValue input"; cases "up_status input";
      cases "up_notes input")
     (simp_all add: rest_entries_def)

lemma p_userId_replace_supplied: "p_userId (replace_supplied r input now) = p_userId r"
  by (simp add: replace_supplied_def)

lemma p_title_replace_supplied:
  "p_title (replace_supplied r input now) = (case up_title input of None \<Rightarrow> p_title r | Some t \<Rightarrow> t)"
  by (simp add: replace_supplied_def)

lemma updateProposal_handler_owner:
  assumes "requireUser context = Inr u"
    and "existing \<in> set (Proposals d)"
    and "p_id existing = up_id input" and "p_userId existing = user_id u"
    and "distinct (map p_id (Proposals d))"
  shows "updateProposal_handler now input context d =
     (if copy_defined (rest_entries input) [] = []
      then (Inr (Some existing), d\<lparr>calls := calls d @ [SELECT ''Proposals'']\<rparr>)
      else (Inr (Some (replace_supplied existing input now)),
            d\<lparr>Proposals :=
                map (\<lambda>r. if r = existing then replace_supplied existing input now else r)
                  (Proposals d),
              calls := calls d @ [SELECT ''Proposals'', UPDATE ''Proposals'']\<rparr>))"
proof -
  let ?cond = "\<lambda>r. p_id r = up_id input \<and> p_userId r = user_id u"
  have rows: "filter ?cond (Proposals d) = [existing]"
    using assms(2-5) by (intro owned_rows) auto
  have m: "map (\<lambda>r. if ?cond r then g r else r) (Proposals d)
         = map (\<lambda>r. if r = existing then g existing else r) (Proposals d)" for g
    using map_key_unique [of p_id "Proposals d" existing "\<lambda>r. p_userId r = user_id u" g]
      assms(2-5)
    by simp
  show ?thesis
    by (simp add: updateProposal_handler_def assms(1) select_Proposals_def limited_def rows
        first_row_def logged_def update_Proposals_def set_columns_of_rest m Let_def)
qed

text \<open>
  Claim C3. When the owner of a stored proposal calls \<^verbatim>\<open>updateProposal\<close> with every
  mutable field omitted, the call succeeds and returns the record exactly as stored;
  both tables are left as they were (the engine executed one select and nothing else),
  so \<^verbatim>\<open>updatedAt\<close> is not advanced.
\<close>

theorem updateProposal_empty_change_set:
  assumes "requireUser context = Inr u"
    and "existing \<in> set (Proposals d)"
    and "p_id existing = up_id input" and "p_userId existing = user_id u"
    and "distinct (map p_id (Proposals d))"
    and "up_title input = None" and "up_clientName input = None"
    and "up_projectName input = None" and "up_currency input = None"
    and "up_estimatedValue input = None" and "up_status input = None"
    and "up_notes input = None"
  shows "updateProposal_handler now input context d
         = (Inr (Some existing), d\<lparr>calls := calls d @ [SELECT ''Proposals'']\<rparr>)"
proof -
  have "copy_defined (rest_entries input) [] = []"
    using assms(6-12) by (simp add: updateData_empty_iff)
  then show ?thesis
    using updateProposal_handler_owner [OF assms(1-5)] by simp
qed

theorem updateProposal_empty_change_set_witness:
  "requireUser (signed_in alice) = Inr alice
   \<and> proposal_p1 \<in> set (Proposals sample_db)
   \<and> distinct (map p_id (Proposals sample_db))
   \<and> updateProposal_handler 1000
        \<lparr>up_id = ''p1'', up_title = None, up_clientName = None, up_projectName = None,
         up_currency = None, up_estimatedValue = None, up_status = None, up_notes = None\<rparr>
        (signed_in alice) sample_db
      = (Inr (Some proposal_p1), sample_db\<lparr>calls := [SELECT ''Proposals'']\<rparr>)"
  using updateProposal_empty_change_set [of "signed_in alice" alice proposal_p1 sample_db
      "\<lparr>up_id = ''p1'', up_title = None, up_clientName = None, up_projectName = None,
         up_currency = None, up_estimatedValue = None, up_status = None, up_notes = None\<rparr>"
      1000]
  by (simp add: sample_defs)

text \<open>
  Claim C4, as amended. When the owner of a stored proposal calls \<^verbatim>\<open>updateProposal\<close>,
  supplies at least one mutable field and supplies no empty title, the record returned,
  which is also the record stored in place of the old one, is the stored record with
  exactly the supplied fields replaced and \<^verbatim>\<open>updatedAt\<close> set to the reading of the
  clock; \<^verbatim>\<open>id\<close>, the owner, \<^verbatim>\<open>createdAt\<close> and every omitted field are unchanged,
  and every other row is untouched. The reading of the clock is written whatever the
  stored \<^verbatim>\<open>updatedAt\<close> is; the two are never compared.
\<close>
theorem updateProposal_replaces_supplied_fields:
  assumes "requireUser context = Inr u"
    and "existing \<in> set (Proposals d)"
    and "p_id existing = up_id input" and "p_userId existing = user_id u"
    and "distinct (map p_id (Proposals d))"
    and "up_title input \<noteq> None \<or> up_clientName input \<noteq> None \<or> up_projectName input \<noteq> None
         \<or> up_currency input \<noteq> None \<or> up_estimatedValue input \<noteq> None
         \<or> up_status input \<noteq> None \<or> up_notes input \<noteq> None"
    and "up_title input \<noteq> Some []"
  shows "updateProposal now input context d =
           (Inr (Some (replace_supplied existing input now)),
            d\<lparr>Proposals :=
                map (\<lambda>r. if r = existing then replace_supplied existing input now else r)
                  (Proposals d),
              calls := calls d @ [SELECT ''Proposals'', UPDATE ''Proposals'']\<rparr>)
       \<and> p_id (replace_supplied existing input now) = p_id existing
       \<and> p_userId (replace_supplied existing input now) = p_userId existing
       \<and> p_createdAt (replace_supplied existing input now) = p_createdAt existing
       \<and> p_updatedAt (replace_supplied existing input now) = now"
proof -
  have "copy_defined (rest_entries input) [] \<noteq> []"
    using assms(6) by (simp add: updateData_empty_iff)
  moreover have "updateProposal_schema input = []"
    using assms(7)
    by (cases "up_title input") (simp_all add: updateProposal_schema_def string_min_def)
  ultimately show ?thesis
    using updateProposal_handler_owner [OF assms(1-5)]
    by (simp add: updateProposal_def defineAction_def replace_supplied_def)
qed
theorem updateProposal_replaces_supplied_fields_witness:
  "requireUser (signed_in alice) = Inr alice
   \<and> proposal_p1 \<in> set (Proposals sample_db)
   \<and> distinct (map p_id (Proposals sample_db))
   \<and> updateProposal 1000
        \<lparr>up_id = ''p1'', up_title = Some ''Website proposal v2'', up_clientName = None,
         up_projectName = None, up_currency = Some ''AED'', up_estimatedValue = None,
         up_status = None, up_notes = None\<rparr>
        (signed_in alice) sample_db
      = (Inr (Some (proposal_p1\<lparr>p_title := ''Website proposal v2'', p_currency := Some ''AED'',
                                 p_updatedAt := 1000\<rparr>)),
         sample_db\<lparr>Proposals :=
                     [proposal_p1\<lparr>p_title := ''Website proposal v2'', p_currency := Some ''AED'',
                                   p_updatedAt := 1000\<rparr>, proposal_p2],
                   calls := [SELECT ''Proposals'', UPDATE ''Proposals'']\<rparr>)"
  using updateProposal_replaces_supplied_fields [of "signed_in alice" alice proposal_p1 sample_db
      "\<lparr>up_id = ''p1'', up_title = Some ''Website proposal v2'', up_clientName = None,
         up_projectName = None, up_currency = Some ''AED'', up_estimatedValue = None,
         up_status = None, up_notes = None\<rparr>" 1000]
  by (simp add: sample_defs replace_supplied_def)

text \<open>
  The claim as stated fails twice. The owner's call that reads the clock at 5 on a
  proposal whose \<^verbatim>\<open>updatedAt\<close> is 20 stores and returns 5, an earlier value; and the
  owner's call that supplies the empty title is rejected by the schema with the input
  error and changes nothing.
\<close>

theorem updateProposal_earlier_clock_and_empty_title:
  "p_updatedAt proposal_p1 = 20
   \<and> fst (updateProposal 5
        \<lparr>up_id = ''p1'', up_title = None, up_clientName = None,
         up_projectName = None, up_currency = Some ''AED'', up_estimatedValue = None,
         up_status = None, up_notes = None\<rparr>
        (signed_in alice) sample_db)
      = Inr (Some (proposal_p1\<lparr>p_currency := Some ''AED'', p_updatedAt := 5\<rparr>))
   \<and> updateProposal 1000
        \<lparr>up_id = ''p1'', up_title = Some [], up_clientName = None,
         up_projectName = None, up_currency = Some ''AED'', up_estimatedValue = None,
         up_status = None, up_notes = None\<rparr>
        (signed_in alice) sample_db
      = (Inl (ActionInputError [(''title'', too_small)]), sample_db)"
  by (simp add: sample_defs updateProposal_def defineAction_def updateProposal_schema_def
      string_min_def updateProposal_handler_def select_Proposals_def limited_def first_row_def
      logged_def update_Proposals_def rest_entries_def set_column_Proposals_def)
subsection \<open>Deleting a proposal\<close>

lemma referenced_iff:
  "referenced d r \<longleftrightarrow> (\<exists>s\<in>set (ProposalSections d). s_proposalId s = p_id r)"
  by (simp add: referenced_def list_ex_iff)

lemma deleteProposal_handler_owner:
  assumes "requireUser context = Inr u"
    and "p \<in> set (Proposals d)"
    and "p_id p = dp_id input" and "p_userId p = user_id u"
    and "distinct (map p_id (Proposals d))"
  shows "deleteProposal_handler input context d =
          (if referenced d p
           then (Inl (EngineError SQLITE_CONSTRAINT_FOREIGNKEY),
                 d\<lparr>calls := calls d @ [DELETE ''Proposals'']\<rparr>)
           else (Inr p, d\<lparr>Proposals := filter (\<lambda>r. r \<noteq> p) (Proposals d),
                          calls := calls d @ [DELETE ''Proposals'']\<rparr>))"
proof -
  let ?cond = "\<lambda>r. p_id r = dp_id input \<and> p_userId r = user_id u"
  have rows: "filter ?cond (Proposals d) = [p]"
    using assms(2-5) by (intro owned_rows) auto
  have others: "filter (\<lambda>r. \<not> ?cond r) (Proposals d) = filter (\<lambda>r. r \<noteq> p) (Proposals d)"
    using filter_key_others [of p_id "Proposals d" p "\<lambda>r. p_userId r = user_id u"] assms(2-5)
    by simp
  show ?thesis
    using rows others
    by (simp add: deleteProposal_handler_def assms(1) delete_Proposals_def first_row_def
        logged_def)
qed
text \<open>
  Claim C6, as amended. When the owner of a stored proposal calls \<^verbatim>\<open>deleteProposal\<close>,
  the one call the engine executes is a delete on \<^verbatim>\<open>Proposals\<close>. If no section refers
  to the proposal, it is removed and returned. If a section refers to it, the engine
  refuses the delete, the call fails with the engine's error, and the proposal stays
  stored. Either way the table of sections is exactly as it was: no section is deleted
  or modified, and none is left referring to a removed proposal.
\<close>
theorem deleteProposal_no_cascade:
  assumes "requireUser context = Inr u"
    and "p \<in> set (Proposals d)"
    and "p_id p = dp_id input" and "p_userId p = user_id u"
    and "distinct (map p_id (Proposals d))"
  shows "deleteProposal input context d =
           (if \<exists>s\<in>set (ProposalSections d). s_proposalId s = p_id p
            then (Inl (EngineError SQLITE_CONSTRAINT_FOREIGNKEY),
                  d\<lparr>calls := calls d @ [DELETE ''Proposals'']\<rparr>)
            else (Inr p, d\<lparr>Proposals := filter (\<lambda>r. r \<noteq> p) (Proposals d),
                           calls := calls d @ [DELETE ''Proposals'']\<rparr>))
       \<and> ProposalSections (snd (deleteProposal input context d)) = ProposalSections d
       \<and> (p \<in> set (Proposals (snd (deleteProposal input context d)))
            \<or> (\<forall>s\<in>set (ProposalSections (snd (deleteProposal input context d))).
                  s_proposalId s \<noteq> p_id p))
       \<and> calls (snd (deleteProposal input context d)) = calls d @ [DELETE ''Proposals'']"
proof -
  have a: "deleteProposal input context d = deleteProposal_handler input context d"
    by (simp add: deleteProposal_def defineAction_def no_schema_def)
  show ?thesis
    unfolding a deleteProposal_handler_owner [OF assms] referenced_iff
    using assms(2) by auto
qed
theorem deleteProposal_no_cascade_witness:
  "requireUser (signed_in alice) = Inr alice
   \<and> proposal_p1 \<in> set (Proposals sample_db)
   \<and> requireUser (signed_in bob) = Inr bob
   \<and> proposal_p2 \<in> set (Proposals sample_db)
   \<and> distinct (map p_id (Proposals sample_db))
   \<and> s_proposalId section_s1 = p_id proposal_p1
   \<and> deleteProposal \<lparr>dp_id = ''p1''\<rparr> (signed_in alice) sample_db
       = (Inl (EngineError SQLITE_CONSTRAINT_FOREIGNKEY),
          sample_db\<lparr>calls := [DELETE ''Proposals'']\<rparr>)
   \<and> deleteProposal \<lparr>dp_id = ''p2''\<rparr> (signed_in bob) sample_db
       = (Inr proposal_p2,
          sample_db\<lparr>Proposals := [proposal_p1], calls := [DELETE ''Proposals'']\<rparr>)"
  using
    deleteProposal_no_cascade
      [of "signed_in alice" alice proposal_p1 sample_db "\<lparr>dp_id = ''p1''\<rparr>"]
    deleteProposal_no_cascade
      [of "signed_in bob" bob proposal_p2 sample_db "\<lparr>dp_id = ''p2''\<rparr>"]
  by (simp add: sample_defs)

text \<open>
  The claim as stated fails for a proposal that has a section: the owner's delete of
  \<open>proposal_p1\<close>, to which \<open>section_s1\<close> refers, is refused, and the proposal is neither
  removed nor returned.
\<close>

theorem deleteProposal_refused_with_section:
  "s_proposalId section_s1 = p_id proposal_p1
   \<and> deleteProposal \<lparr>dp_id = ''p1''\<rparr> (signed_in alice) sample_db
       = (Inl (EngineError SQLITE_CONSTRAINT_FOREIGNKEY),
          sample_db\<lparr>calls := [DELETE ''Proposals'']\<rparr>)
   \<and> proposal_p1 \<in> set (Proposals (snd (deleteProposal \<lparr>dp_id = ''p1''\<rparr> (signed_in alice)
                                            sample_db)))"
  by (simp add: sample_defs deleteProposal_def defineAction_def no_schema_def
      deleteProposal_handler_def delete_Proposals_def referenced_def first_row_def logged_def)
subsection \<open>Proposals of other users\<close>

lemma updateProposal_handler_returns_own:
  assumes "requireUser context = Inr u"
    and "fst (updateProposal_handler now input context d) = Inr (Some r)"
  shows "p_userId r = user_id u"
proof -
  let ?cond = "\<lambda>r. p_id r = up_id input \<and> p_userId r = user_id u"
  show ?thesis
  proof (cases "filter ?cond (Proposals d)")
    case Nil
    then show ?thesis using assms
      by (simp add: updateProposal_handler_def select_Proposals_def limited_def first_row_def)
  next
    case (Cons x xs)
    then have "x \<in> set (filter ?cond (Proposals d))" by simp
    then have "p_userId x = user_id u" by simp
    then show ?thesis using assms Cons
      by (auto simp: updateProposal_handler_def select_Proposals_def limited_def first_row_def
          update_Proposals_def set_columns_of_rest p_userId_replace_supplied Let_def logged_def
          split: if_splits)
  qed
qed

lemma deleteProposal_handler_returns_own:
  assumes "requireUser context = Inr u"
    and "fst (deleteProposal_handler input context d) = Inr r"
  shows "p_userId r = user_id u"
proof -
  let ?cond = "\<lambda>r. p_id r = dp_id input \<and> p_userId r = user_id u"
  have "first_row (filter ?cond (Proposals d)) = Some r"
    using assms
    by (simp add: deleteProposal_handler_def delete_Proposals_def
        split: if_splits option.splits)
  then have "r \<in> set (Proposals d) \<and> ?cond r"
    by (rule first_row_filter_Some)
  then show ?thesis by simp
qed
lemma getProposalWithSections_handler_returns_own:
  assumes "requireUser context = Inr u"
    and "fst (getProposalWithSections_handler input context d) = Inr (r, ss)"
  shows "p_userId r = user_id u"
proof -
  let ?cond = "\<lambda>r. p_id r = gp_id input \<and> p_userId r = user_id u"
  show ?thesis
  proof (cases "filter ?cond (Proposals d)")
    case Nil
    then show ?thesis using assms
      by (simp add: getProposalWithSections_handler_def select_Proposals_def limited_def first_row_def)
  next
    case (Cons x xs)
    then have "x \<in> set (filter ?cond (Proposals d))" by simp
    then have "p_userId x = user_id u" by simp
    then show ?thesis using assms Cons
      by (auto simp: getProposalWithSections_handler_def select_Proposals_def limited_def
          first_row_def select_ProposalSections_def)
  qed
qed

text \<open>
  Claim C1. A proposal \<open>p\<close> stored for one user is never handed to another signed-in
  user: \<^verbatim>\<open>listProposals\<close> leaves it out, and \<^verbatim>\<open>getProposalWithSections\<close>,
  \<^verbatim>\<open>updateProposal\<close> and \<^verbatim>\<open>deleteProposal\<close> called with its id fail with
  \<^verbatim>\<open>NOT_FOUND\<close> ("Proposal not found."), the same failure as for an id that does not
  exist and not a \<^verbatim>\<open>FORBIDDEN\<close> one, leaving both tables as they were. Whatever input
  these three are given, none of them returns \<open>p\<close>.
\<close>

theorem proposals_hidden_from_other_users:
  assumes "requireUser context = Inr u2"
    and "p \<in> set (Proposals d)" and "p_userId p \<noteq> user_id u2"
    and "distinct (map p_id (Proposals d))"
    and "up_id u_input = p_id p" and "dp_id d_input = p_id p" and "gp_id g_input = p_id p"
  shows "(\<exists>ps. fst (listProposals_handler () context d) = Inr ps \<and> p \<notin> set ps)
       \<and> getProposalWithSections_handler g_input context d
           = (Inl (ActionError NOT_FOUND ''Proposal not found.''),
              d\<lparr>calls := calls d @ [SELECT ''Proposals'']\<rparr>)
       \<and> updateProposal_handler now u_input context d
           = (Inl (ActionError NOT_FOUND ''Proposal not found.''),
              d\<lparr>calls := calls d @ [SELECT ''Proposals'']\<rparr>)
       \<and> deleteProposal_handler d_input context d
           = (Inl (ActionError NOT_FOUND ''Proposal not found.''),
              d\<lparr>calls := calls d @ [DELETE ''Proposals'']\<rparr>)
       \<and> (\<forall>input ss. fst (getProposalWithSections_handler input context d) \<noteq> Inr (p, ss))
       \<and> (\<forall>t input. fst (updateProposal_handler t input context d) \<noteq> Inr (Some p))
       \<and> (\<forall>input. fst (deleteProposal_handler input context d) \<noteq> Inr p)"
proof -
  have none: "filter (\<lambda>r. p_id r = p_id p \<and> p_userId r = user_id u2) (Proposals d) = []"
    using assms(2-4) by (intro not_owned_rows) auto
  then have keep: "filter (\<lambda>r. \<not> (p_id r = p_id p \<and> p_userId r = user_id u2)) (Proposals d) = Proposals d"
    by (simp add: filter_empty_conv)
  have l: "\<exists>ps. fst (listProposals_handler () context d) = Inr ps \<and> p \<notin> set ps"
    using assms(1,3) by (simp add: listProposals_handler_def select_Proposals_def limited_def)
  have g: "getProposalWithSections_handler g_input context d
           = (Inl (ActionError NOT_FOUND ''Proposal not found.''),
              d\<lparr>calls := calls d @ [SELECT ''Proposals'']\<rparr>)"
    using none by (simp add: getProposalWithSections_handler_def assms(1,7) select_Proposals_def
        limited_def first_row_def logged_def)
  have up: "updateProposal_handler now u_input context d
           = (Inl (ActionError NOT_FOUND ''Proposal not found.''),
              d\<lparr>calls := calls d @ [SELECT ''Proposals'']\<rparr>)"
    using none by (simp add: updateProposal_handler_def assms(1,5) select_Proposals_def
        limited_def first_row_def logged_def)
  have de: "deleteProposal_handler d_input context d
           = (Inl (ActionError NOT_FOUND ''Proposal not found.''),
              d\<lparr>calls := calls d @ [DELETE ''Proposals'']\<rparr>)"
    using none keep by (simp add: deleteProposal_handler_def assms(1,6) delete_Proposals_def
        first_row_def logged_def)
  have g': "\<forall>input ss. fst (getProposalWithSections_handler input context d) \<noteq> Inr (p, ss)"
    using getProposalWithSections_handler_returns_own [OF assms(1)] assms(3) by blast
  have up': "\<forall>t input. fst (updateProposal_handler t input context d) \<noteq> Inr (Some p)"
    using updateProposal_handler_returns_own [OF assms(1)] assms(3) by blast
  have de': "\<forall>input. fst (deleteProposal_handler input context d) \<noteq> Inr p"
    using deleteProposal_handler_returns_own [OF assms(1)] assms(3) by blast
  show ?thesis using l g up de g' up' de' by blast
qed

theorem proposals_hidden_from_other_users_witness:
  "requireUser (signed_in bob) = Inr bob
   \<and> proposal_p1 \<in> set (Proposals sample_db)
   \<and> p_userId proposal_p1 \<noteq> user_id bob
   \<and> distinct (map p_id (Proposals sample_db))
   \<and> fst (listProposals_handler () (signed_in bob) sample_db) = Inr [proposal_p2]
   \<and> getProposalWithSections_handler \<lparr>gp_id = ''p1''\<rparr> (signed_in bob) sample_db
       = (Inl (ActionError NOT_FOUND ''Proposal not found.''),
          sample_db\<lparr>calls := [SELECT ''Proposals'']\<rparr>)
   \<and> updateProposal_handler 1000
        \<lparr>up_id = ''p1'', up_title = Some ''Taken over'', up_clientName = None,
         up_projectName = None, up_currency = None, up_estimatedValue = None,
         up_status = None, up_notes = None\<rparr> (signed_in bob) sample_db
       = (Inl (ActionError NOT_FOUND ''Proposal not found.''),
          sample_db\<lparr>calls := [SELECT ''Proposals'']\<rparr>)
   \<and> deleteProposal_handler \<lparr>dp_id = ''p1''\<rparr> (signed_in bob) sample_db
       = (Inl (ActionError NOT_FOUND ''Proposal not found.''),
          sample_db\<lparr>calls := [DELETE ''Proposals'']\<rparr>)"
proof -
  have h: "requireUser (signed_in bob) = Inr bob" "proposal_p1 \<in> set (Proposals sample_db)"
    "p_userId proposal_p1 \<noteq> user_id bob" "distinct (map p_id (Proposals sample_db))"
    by (simp_all add: sample_defs)
  have l: "fst (listProposals_handler () (signed_in bob) sample_db) = Inr [proposal_p2]"
    by (simp add: listProposals_handler_def select_Proposals_def limited_def sample_defs)
  show ?thesis
    using h l proposals_hidden_from_other_users [OF h, of "\<lparr>up_id = ''p1'', up_title = Some ''Taken over'', up_clientName = None,
         up_projectName = None, up_currency = None, up_estimatedValue = None,
         up_status = None, up_notes = None\<rparr>" "\<lparr>dp_id = ''p1''\<rparr>" "\<lparr>gp_id = ''p1''\<rparr>" 1000]
    by (simp add: proposal_p1_def sample_db_def)
qed

subsection \<open>The title invariant\<close>

lemma createProposal_titles:
  assumes "titles_nonempty d"
  shows "titles_nonempty (snd (createProposal randomUUID now1 now2 input context d))"
proof (cases "createProposal_schema input")
  case Nil
  then have "cp_title input \<noteq> []"
    by (simp add: createProposal_schema_def string_min_def split: if_splits)
  then show ?thesis using assms Nil
    by (simp add: createProposal_def defineAction_def createProposal_handler_def
        insert_Proposals_def logged_def titles_nonempty_def first_row_def split: sum.splits)
next
  case (Cons a as)
  then show ?thesis using assms by (simp add: createProposal_def defineAction_def)
qed

lemma updateProposal_titles:
  assumes "titles_nonempty d"
  shows "titles_nonempty (snd (updateProposal now input context d))"
proof (cases "updateProposal_schema input")
  case Nil
  then have t: "up_title input \<noteq> Some []"
    by (auto simp: updateProposal_schema_def string_min_def split: option.splits if_splits)
  have keep: "p_title r \<noteq> [] \<Longrightarrow> p_title (replace_supplied r input now) \<noteq> []" for r
    using t by (cases "up_title input") (simp_all add: p_title_replace_supplied)
  have "titles_nonempty (snd (updateProposal_handler now input context d))"
    using assms keep
    by (auto simp: updateProposal_handler_def select_Proposals_def update_Proposals_def
        logged_def titles_nonempty_def list_all_iff set_columns_of_rest Let_def
        split: sum.splits option.splits)
  then show ?thesis using Nil by (simp add: updateProposal_def defineAction_def)
next
  case (Cons a as)
  then show ?thesis using assms by (simp add: updateProposal_def defineAction_def)
qed

lemma deleteProposal_titles:
  assumes "titles_nonempty d"
  shows "titles_nonempty (snd (deleteProposal input context d))"
  using assms
  by (auto simp: deleteProposal_def defineAction_def no_schema_def deleteProposal_handler_def
      delete_Proposals_def logged_def titles_nonempty_def list_all_iff
      split: sum.splits option.splits)

lemma listProposals_titles:
  assumes "titles_nonempty d"
  shows "titles_nonempty (snd (listProposals input context d))"
  using assms
  by (auto simp: listProposals_def defineAction_def no_schema_def listProposals_handler_def
      select_Proposals_def logged_def titles_nonempty_def split: sum.splits)

lemma saveSection_handler_Proposals:
  "Proposals (snd (saveSection_handler now input context d)) = Proposals d"
  by (simp add: saveSection_handler_def select_Proposals_def select_ProposalSections_def
      update_ProposalSections_def insert_ProposalSections_def logged_def Let_def
      split: sum.splits option.splits)

lemma saveSection_titles:
  assumes "titles_nonempty d"
  shows "titles_nonempty (snd (saveSection now input context d))"
  using assms
  by (cases "saveSection_schema input")
     (simp_all add: saveSection_def defineAction_def titles_nonempty_def
       saveSection_handler_Proposals)

lemma deleteSection_titles:
  assumes "titles_nonempty d"
  shows "titles_nonempty (snd (deleteSection input context d))"
  using assms
  by (auto simp: deleteSection_def defineAction_def no_schema_def deleteSection_handler_def
      select_Proposals_def delete_ProposalSections_def logged_def titles_nonempty_def
      split: sum.splits option.splits)

lemma getProposalWithSections_titles:
  assumes "titles_nonempty d"
  shows "titles_nonempty (snd (getProposalWithSections input context d))"
  using assms
  by (auto simp: getProposalWithSections_def defineAction_def no_schema_def
      getProposalWithSections_handler_def select_Proposals_def select_ProposalSections_def
      logged_def titles_nonempty_def split: sum.splits option.splits)

text \<open>
  Claim C10. Every stored proposal has a non-empty title, and every exposed action keeps
  it so. \<^verbatim>\<open>createProposal\<close> rejects an empty title with the input error, and so does
  \<^verbatim>\<open>updateProposal\<close> for a title that is supplied and empty; both rejections hand the
  engine back exactly as received, so they come before any data access.
\<close>

theorem title_nonempty_preserved:
  "(titles_nonempty d \<longrightarrow>
      titles_nonempty (snd (createProposal randomUUID now1 now2 c_input context d))
      \<and> titles_nonempty (snd (updateProposal now u_input context d))
      \<and> titles_nonempty (snd (listProposals () context d))
      \<and> titles_nonempty (snd (deleteProposal d_input context d))
      \<and> titles_nonempty (snd (saveSection now s_input context d))
      \<and> titles_nonempty (snd (deleteSection ds_input context d))
      \<and> titles_nonempty (snd (getProposalWithSections g_input context d)))
   \<and> (cp_title c_input = [] \<longrightarrow>
        createProposal randomUUID now1 now2 c_input context d
          = (Inl (ActionInputError [(''title'', too_small)]), d))
   \<and> (up_title u_input = Some [] \<longrightarrow>
        updateProposal now u_input context d
          = (Inl (ActionInputError [(''title'', too_small)]), d))"
proof (intro conjI impI)
  assume "cp_title c_input = []"
  then show "createProposal randomUUID now1 now2 c_input context d
          = (Inl (ActionInputError [(''title'', too_small)]), d)"
    by (simp add: createProposal_def defineAction_def createProposal_schema_def string_min_def)
next
  assume "up_title u_input = Some []"
  then show "updateProposal now u_input context d
          = (Inl (ActionInputError [(''title'', too_small)]), d)"
    by (simp add: updateProposal_def defineAction_def updateProposal_schema_def string_min_def)
qed (simp_all add: createProposal_titles updateProposal_titles listProposals_titles
      deleteProposal_titles saveSection_titles deleteSection_titles
      getProposalWithSections_titles)

theorem title_nonempty_preserved_witness:
  "titles_nonempty sample_db
   \<and> titles_nonempty (snd (createProposal ''generated'' 1000 1000
        \<lparr>cp_id = None, cp_title = ''Retainer'', cp_clientName = None,
         cp_projectName = None, cp_currency = None, cp_estimatedValue = None,
         cp_status = None, cp_notes = None\<rparr> (signed_in alice) sample_db))
   \<and> createProposal ''generated'' 1000 1000
        \<lparr>cp_id = None, cp_title = [], cp_clientName = None,
         cp_projectName = None, cp_currency = None, cp_estimatedValue = None,
         cp_status = None, cp_notes = None\<rparr> (signed_in alice) sample_db
       = (Inl (ActionInputError [(''title'', too_small)]), sample_db)
   \<and> updateProposal 1000
        \<lparr>up_id = ''p1'', up_title = Some [], up_clientName = None,
         up_projectName = None, up_currency = None, up_estimatedValue = None,
         up_status = None, up_notes = None\<rparr> (signed_in alice) sample_db
       = (Inl (ActionInputError [(''title'', too_small)]), sample_db)"
proof -
  have h: "titles_nonempty sample_db"
    by (simp add: titles_nonempty_def sample_defs)
  show ?thesis
    using h
      title_nonempty_preserved [of sample_db "''generated''" 1000 1000
        "\<lparr>cp_id = None, cp_title = ''Retainer'', cp_clientName = None,
         cp_projectName = None, cp_currency = None, cp_estimatedValue = None,
         cp_status = None, cp_notes = None\<rparr>" "signed_in alice"]
      title_nonempty_preserved [of sample_db "''generated''" 1000 1000
        "\<lparr>cp_id = None, cp_title = [], cp_clientName = None,
         cp_projectName = None, cp_currency = None, cp_estimatedValue = None,
         cp_status = None, cp_notes = None\<rparr>" "signed_in alice" 1000
        "\<lparr>up_id = ''p1'', up_title = Some [], up_clientName = None,
         up_projectName = None, up_currency = None, up_estimatedValue = None,
         up_status = None, up_notes = None\<rparr>"]
    by simp
qed

subsection \<open>Saving a section\<close>

text \<open>
  Claim C7. A \<^verbatim>\<open>saveSection\<close> call that supplies no id, made by the owner of the parent
  proposal, inserts and returns a section with the supplied \<^verbatim>\<open>proposalId\<close>,
  \<^verbatim>\<open>type\<close>, \<^verbatim>\<open>orderIndex\<close>, \<^verbatim>\<open>heading\<close> and \<^verbatim>\<open>content\<close> and with
  \<^verbatim>\<open>createdAt\<close> set to the reading of the clock. The handler gives the row no id:
  \<^verbatim>\<open>baseValues\<close> has no \<^verbatim>\<open>id\<close> key and the column declares no default, so the
  section stored and returned holds none, where \<^verbatim>\<open>createProposal\<close> writes
  \<^verbatim>\<open>input.id ?? crypto.randomUUID()\<close>.
\<close>

theorem saveSection_insert_has_no_id:
  assumes "requireUser context = Inr u"
    and "proposal \<in> set (Proposals d)"
    and "p_id proposal = ss_proposalId input" and "p_userId proposal = user_id u"
    and "ss_id input = None"
  shows "saveSection_handler now input context d =
          (Inr (Some \<lparr>s_id = None, s_proposalId = ss_proposalId input, s_type = ss_type input,
                      s_orderIndex = ss_orderIndex input, s_heading = ss_heading input,
                      s_content = ss_content input, s_createdAt = now\<rparr>),
           d\<lparr>ProposalSections := ProposalSections d @
                 [\<lparr>s_id = None, s_proposalId = ss_proposalId input, s_type = ss_type input,
                   s_orderIndex = ss_orderIndex input, s_heading = ss_heading input,
                   s_content = ss_content input, s_createdAt = now\<rparr>],
             calls := calls d @ [SELECT ''Proposals'', INSERT ''ProposalSections'']\<rparr>)"
proof -
  obtain y where y: "first_row (filter (\<lambda>r. p_id r = ss_proposalId input \<and> p_userId r = user_id u)
                       (Proposals d)) = Some y"
    using first_row_filter_mem [of proposal "Proposals d"
        "\<lambda>r. p_id r = ss_proposalId input \<and> p_userId r = user_id u"] assms(2,3,4) by blast
  show ?thesis
    by (simp add: saveSection_handler_def assms(1,5) select_Proposals_def first_row_limited y
        truthy_def insert_ProposalSections_def logged_def Let_def first_row_Cons)
qed

theorem saveSection_insert_has_no_id_witness:
  "requireUser (signed_in alice) = Inr alice
   \<and> proposal_p1 \<in> set (Proposals sample_db)
   \<and> fst (saveSection_handler 1000
        \<lparr>ss_id = None, ss_proposalId = ''p1'', ss_type = None, ss_orderIndex = 1,
         ss_heading = None, ss_content = ''Intro text''\<rparr> (signed_in alice) sample_db)
       = Inr (Some \<lparr>s_id = None, s_proposalId = ''p1'', s_type = None, s_orderIndex = 1,
                    s_heading = None, s_content = ''Intro text'', s_createdAt = 1000\<rparr>)"
  using saveSection_insert_has_no_id [of "signed_in alice" alice proposal_p1 sample_db
      "\<lparr>ss_id = None, ss_proposalId = ''p1'', ss_type = None, ss_orderIndex = 1,
         ss_heading = None, ss_content = ''Intro text''\<rparr>" 1000]
  by (simp add: sample_defs)

text \<open>
  Claim C2, as amended. A \<^verbatim>\<open>saveSection\<close> call by a signed-in caller that supplies a
  non-empty id fails with \<^verbatim>\<open>NOT_FOUND\<close> and leaves both tables exactly as they were
  whenever no stored section has that id under the input's \<^verbatim>\<open>proposalId\<close>: either no
  section has the id, or the section that has it belongs to another proposal.
\<close>

theorem saveSection_unknown_section_no_mutation:
  assumes "requireUser context = Inr u"
    and "ss_id input = Some i" and "i \<noteq> []"
    and "\<forall>s\<in>set (ProposalSections d). s_id s = Some i \<longrightarrow> s_proposalId s \<noteq> ss_proposalId input"
  shows "(fst (saveSection_handler now input context d)
            = Inl (ActionError NOT_FOUND ''Proposal not found.'')
          \<or> fst (saveSection_handler now input context d)
            = Inl (ActionError NOT_FOUND ''Section not found.''))
       \<and> Proposals (snd (saveSection_handler now input context d)) = Proposals d
       \<and> ProposalSections (snd (saveSection_handler now input context d)) = ProposalSections d"
proof (cases "first_row (filter (\<lambda>r. p_id r = ss_proposalId input \<and> p_userId r = user_id u)
                       (Proposals d))")
  case None
  then show ?thesis
    by (simp add: saveSection_handler_def assms(1) select_Proposals_def first_row_limited logged_def)
next
  case (Some proposal)
  show ?thesis
  proof (cases "first_row (filter (\<lambda>s. s_id s = Some i) (ProposalSections d))")
    case None
    then show ?thesis using Some
      by (simp add: saveSection_handler_def assms(1-3) select_Proposals_def first_row_limited
          logged_def truthy_def select_ProposalSections_def Let_def)
  next
    case (Some existing)
    then have "existing \<in> set (ProposalSections d) \<and> s_id existing = Some i"
      by (rule first_row_filter_Some)
    then have "s_proposalId existing \<noteq> ss_proposalId input"
      using assms(4) by blast
    then show ?thesis using Some \<open>first_row (filter (\<lambda>r. p_id r = ss_proposalId input \<and> p_userId r = user_id u)
                       (Proposals d)) = Some proposal\<close>
      by (simp add: saveSection_handler_def assms(1-3) select_Proposals_def first_row_limited
          logged_def truthy_def select_ProposalSections_def Let_def)
  qed
qed

theorem saveSection_unknown_section_no_mutation_witness:
  "requireUser (signed_in alice) = Inr alice
   \<and> fst (saveSection_handler 1000
        \<lparr>ss_id = Some ''s9'', ss_proposalId = ''p1'', ss_type = None, ss_orderIndex = 1,
         ss_heading = None, ss_content = ''Scope''\<rparr> (signed_in alice) sample_db)
       = Inl (ActionError NOT_FOUND ''Section not found.'')
   \<and> fst (saveSection_handler 1000
        \<lparr>ss_id = Some ''s1'', ss_proposalId = ''p2'', ss_type = None, ss_orderIndex = 1,
         ss_heading = None, ss_content = ''Scope''\<rparr> (signed_in bob) sample_db)
       = Inl (ActionError NOT_FOUND ''Section not found.'')
   \<and> ProposalSections (snd (saveSection_handler 1000
        \<lparr>ss_id = Some ''s1'', ss_proposalId = ''p2'', ss_type = None, ss_orderIndex = 1,
         ss_heading = None, ss_content = ''Scope''\<rparr> (signed_in bob) sample_db))
       = [section_s1]"
  using
    saveSection_unknown_section_no_mutation [of "signed_in alice" alice
      "\<lparr>ss_id = Some ''s9'', ss_proposalId = ''p1'', ss_type = None, ss_orderIndex = 1,
         ss_heading = None, ss_content = ''Scope''\<rparr>" "''s9''" sample_db 1000]
    saveSection_unknown_section_no_mutation [of "signed_in bob" bob
      "\<lparr>ss_id = Some ''s1'', ss_proposalId = ''p2'', ss_type = None, ss_orderIndex = 1,
         ss_heading = None, ss_content = ''Scope''\<rparr>" "''s1''" sample_db 1000]
  by (simp add: sample_defs saveSection_handler_def select_Proposals_def limited_def
        first_row_def logged_def truthy_def select_ProposalSections_def)

text \<open>
  The claim as stated fails for an id that is supplied and empty: \<^verbatim>\<open>if (input.id)\<close> is
  false for it, no section has that id, and the call inserts a section instead of
  failing. It also fails without an identity, where the failure is
  \<^verbatim>\<open>UNAUTHORIZED\<close>.
\<close>

theorem saveSection_empty_id_inserts:
  "saveSection_handler 1000
      \<lparr>ss_id = Some [], ss_proposalId = ''p1'', ss_type = None, ss_orderIndex = 2,
       ss_heading = None, ss_content = ''Scope''\<rparr> (signed_in alice) sample_db
     = (Inr (Some \<lparr>s_id = None, s_proposalId = ''p1'', s_type = None, s_orderIndex = 2,
                  s_heading = None, s_content = ''Scope'', s_createdAt = 1000\<rparr>),
        sample_db\<lparr>ProposalSections :=
                    [section_s1,
                     \<lparr>s_id = None, s_proposalId = ''p1'', s_type = None, s_orderIndex = 2,
                      s_heading = None, s_content = ''Scope'', s_createdAt = 1000\<rparr>],
                  calls := [SELECT ''Proposals'', INSERT ''ProposalSections'']\<rparr>)
   \<and> filter (\<lambda>s. s_id s = Some []) (ProposalSections sample_db) = []
   \<and> saveSection_handler 1000
      \<lparr>ss_id = Some ''s9'', ss_proposalId = ''p1'', ss_type = None, ss_orderIndex = 2,
       ss_heading = None, ss_content = ''Scope''\<rparr> anonymous sample_db
     = (Inl (ActionError UNAUTHORIZED ''You must be signed in to perform this action.''),
        sample_db)
   \<and> filter (\<lambda>s. s_id s = Some ''s9'') (ProposalSections sample_db) = []"
  by (simp add: sample_defs saveSection_handler_def select_Proposals_def limited_def
        first_row_def logged_def truthy_def insert_ProposalSections_def Let_def)

lemma saveSection_handler_update_path:
  assumes "requireUser context = Inr u"
    and y: "first_row (filter (\<lambda>r. p_id r = ss_proposalId input \<and> p_userId r = user_id u)
                       (Proposals d)) = Some y"
    and "ss_id input = Some i" and "i \<noteq> []"
    and e: "first_row (filter (\<lambda>s. s_id s = Some i) (ProposalSections d)) = Some existing"
    and "s_proposalId existing = ss_proposalId input"
  shows "saveSection_handler now input context d =
          (Inr (Some (set_ProposalSections
                   \<lparr>bv_proposalId = ss_proposalId input, bv_type = ss_type input,
                    bv_orderIndex = ss_orderIndex input, bv_heading = ss_heading input,
                    bv_content = ss_content input, bv_createdAt = now\<rparr> existing)),
           d\<lparr>ProposalSections :=
               map (\<lambda>s. if s_id s = Some i
                         then set_ProposalSections
                   \<lparr>bv_proposalId = ss_proposalId input, bv_type = ss_type input,
                    bv_orderIndex = ss_orderIndex input, bv_heading = ss_heading input,
                    bv_content = ss_content input, bv_createdAt = now\<rparr> s
                         else s) (ProposalSections d),
             calls := calls d @ [SELECT ''Proposals'', SELECT ''ProposalSections'',
                                 UPDATE ''ProposalSections'']\<rparr>)"
  by (simp add: saveSection_handler_def assms(1,3,4,6) select_Proposals_def first_row_limited y
        truthy_def select_ProposalSections_def e update_ProposalSections_def first_row_map
        logged_def Let_def)

text \<open>
  Claim C8, as amended. A \<^verbatim>\<open>saveSection\<close> call by the owner of the parent proposal that
  supplies a non-empty id, the id of a stored section of that proposal, overwrites the
  section's \<^verbatim>\<open>orderIndex\<close> and \<^verbatim>\<open>content\<close> with the input's values, overwrites
  \<^verbatim>\<open>type\<close> and \<^verbatim>\<open>heading\<close> where the input supplies them and leaves them as
  stored where it omits them, sets \<^verbatim>\<open>createdAt\<close> to the reading of the clock, and
  returns the updated section; every other section is untouched.
\<close>

theorem saveSection_update_overwrites:
  assumes "requireUser context = Inr u"
    and "proposal \<in> set (Proposals d)"
    and "p_id proposal = ss_proposalId input" and "p_userId proposal = user_id u"
    and "ss_id input = Some i" and "i \<noteq> []"
    and "existing \<in> set (ProposalSections d)"
    and "s_id existing = Some i" and "s_proposalId existing = ss_proposalId input"
    and "\<forall>s\<in>set (ProposalSections d). s_id s = Some i \<longrightarrow> s = existing"
  shows "saveSection_handler now input context d =
          (Inr (Some (existing
                  \<lparr>s_type := (case ss_type input of None \<Rightarrow> s_type existing | Some t \<Rightarrow> Some t),
                   s_orderIndex := ss_orderIndex input,
                   s_heading := (case ss_heading input of None \<Rightarrow> s_heading existing | Some h \<Rightarrow> Some h),
                   s_content := ss_content input,
                   s_createdAt := now\<rparr>)),
           d\<lparr>ProposalSections :=
               map (\<lambda>s. if s = existing
                         then existing
                  \<lparr>s_type := (case ss_type input of None \<Rightarrow> s_type existing | Some t \<Rightarrow> Some t),
                   s_orderIndex := ss_orderIndex input,
                   s_heading := (case ss_heading input of None \<Rightarrow> s_heading existing | Some h \<Rightarrow> Some h),
                   s_content := ss_content input,
                   s_createdAt := now\<rparr>
                         else s) (ProposalSections d),
             calls := calls d @ [SELECT ''Proposals'', SELECT ''ProposalSections'',
                                 UPDATE ''ProposalSections'']\<rparr>)"
proof -
  let ?v = "\<lparr>bv_proposalId = ss_proposalId input, bv_type = ss_type input,
             bv_orderIndex = ss_orderIndex input, bv_heading = ss_heading input,
             bv_content = ss_content input, bv_createdAt = now\<rparr>"
  let ?new = "existing
                  \<lparr>s_type := (case ss_type input of None \<Rightarrow> s_type existing | Some t \<Rightarrow> Some t),
                   s_orderIndex := ss_orderIndex input,
                   s_heading := (case ss_heading input of None \<Rightarrow> s_heading existing | Some h \<Rightarrow> Some h),
                   s_content := ss_content input,
                   s_createdAt := now\<rparr>"
  obtain y where y: "first_row (filter (\<lambda>r. p_id r = ss_proposalId input \<and> p_userId r = user_id u)
                       (Proposals d)) = Some y"
    using first_row_filter_mem [of proposal "Proposals d"
        "\<lambda>r. p_id r = ss_proposalId input \<and> p_userId r = user_id u"] assms(2,3,4) by blast
  have e: "first_row (filter (\<lambda>s. s_id s = Some i) (ProposalSections d)) = Some existing"
    using first_row_filter_only [of existing "ProposalSections d" "\<lambda>s. s_id s = Some i"]
      assms(7,8,10) by blast
  have upd: "set_ProposalSections ?v existing = ?new"
    using assms(9) by (simp add: set_ProposalSections_def)
  have m: "map (\<lambda>s. if s_id s = Some i then set_ProposalSections ?v s else s) (ProposalSections d)
         = map (\<lambda>s. if s = existing then set_ProposalSections ?v existing else s) (ProposalSections d)"
    using assms(7,8,10)
    by (intro map_only [of existing "ProposalSections d" "\<lambda>s. s_id s = Some i"])
  show ?thesis
    unfolding saveSection_handler_update_path [OF assms(1) y assms(5,6) e assms(9)] m upd ..
qed

theorem saveSection_update_overwrites_witness:
  "requireUser (signed_in alice) = Inr alice
   \<and> proposal_p1 \<in> set (Proposals sample_db)
   \<and> section_s1 \<in> set (ProposalSections sample_db)
   \<and> saveSection_handler 1000
        \<lparr>ss_id = Some ''s1'', ss_proposalId = ''p1'', ss_type = Some ''scope'', ss_orderIndex = 2,
         ss_heading = None, ss_content = ''Rewritten''\<rparr> (signed_in alice) sample_db
       = (Inr (Some \<lparr>s_id = Some ''s1'', s_proposalId = ''p1'', s_type = Some ''scope'',
                    s_orderIndex = 2, s_heading = Some ''Introduction'',
                    s_content = ''Rewritten'', s_createdAt = 1000\<rparr>),
          sample_db\<lparr>ProposalSections :=
                      [\<lparr>s_id = Some ''s1'', s_proposalId = ''p1'', s_type = Some ''scope'',
                        s_orderIndex = 2, s_heading = Some ''Introduction'',
                        s_content = ''Rewritten'', s_createdAt = 1000\<rparr>],
                    calls := [SELECT ''Proposals'', SELECT ''ProposalSections'',
                              UPDATE ''ProposalSections'']\<rparr>)"
  using saveSection_update_overwrites [of "signed_in alice" alice proposal_p1 sample_db
      "\<lparr>ss_id = Some ''s1'', ss_proposalId = ''p1'', ss_type = Some ''scope'', ss_orderIndex = 2,
         ss_heading = None, ss_content = ''Rewritten''\<rparr>" "''s1''" section_s1 1000]
  by (simp add: sample_defs)

text \<open>
  The claim as stated fails for an omitted optional field: the stored \<^verbatim>\<open>type\<close> and
  \<^verbatim>\<open>heading\<close> survive an update that omits them. It also fails for an id that is
  supplied and empty, which takes the insert path even when a stored section has the
  empty id.
\<close>

theorem saveSection_update_keeps_omitted:
  "fst (saveSection_handler 1000
        \<lparr>ss_id = Some ''s1'', ss_proposalId = ''p1'', ss_type = None, ss_orderIndex = 2,
         ss_heading = None, ss_content = ''Rewritten''\<rparr> (signed_in alice) sample_db)
     = Inr (Some \<lparr>s_id = Some ''s1'', s_proposalId = ''p1'', s_type = Some ''intro'',
                  s_orderIndex = 2, s_heading = Some ''Introduction'',
                  s_content = ''Rewritten'', s_createdAt = 1000\<rparr>)
   \<and> s_type section_s1 = Some ''intro''
   \<and> s_heading section_s1 = Some ''Introduction''
   \<and> saveSection_handler 1000
        \<lparr>ss_id = Some [], ss_proposalId = ''p1'', ss_type = None, ss_orderIndex = 2,
         ss_heading = None, ss_content = ''Rewritten''\<rparr> (signed_in alice)
        (sample_db\<lparr>ProposalSections := [section_s1\<lparr>s_id := Some []\<rparr>]\<rparr>)
     = (Inr (Some \<lparr>s_id = None, s_proposalId = ''p1'', s_type = None, s_orderIndex = 2,
                  s_heading = None, s_content = ''Rewritten'', s_createdAt = 1000\<rparr>),
        sample_db\<lparr>ProposalSections :=
                    [section_s1\<lparr>s_id := Some []\<rparr>,
                     \<lparr>s_id = None, s_proposalId = ''p1'', s_type = None, s_orderIndex = 2,
                      s_heading = None, s_content = ''Rewritten'', s_createdAt = 1000\<rparr>],
                  calls := [SELECT ''Proposals'', INSERT ''ProposalSections'']\<rparr>)"
  by (simp add: sample_defs saveSection_handler_def select_Proposals_def limited_def
        first_row_def logged_def truthy_def insert_ProposalSections_def Let_def
        select_ProposalSections_def update_ProposalSections_def set_ProposalSections_def)

end
